theory Spec2Isabelle
  imports Main "HOL-Library.Product_Lexorder" "HOL-Library.Code_Target_Nat"
begin

section \<open>Data model\<close>

text \<open>
  The booking workflow of the facility controller, over the two tables of the migration
  that it reads and writes.  Identifiers (\<open>uuid\<close> columns) are natural numbers, calendar
  dates (\<open>date\<close> columns) are day numbers, times of day (\<open>time\<close> columns) are seconds
  since midnight, and timestamps are milliseconds since the epoch, in the time zone of
  the server.
\<close>

type_synonym uuid = nat
type_synonym date = nat
type_synonym time_of_day = nat
type_synonym timestamp = int

datatype user_role = Admin | Resident

datatype booking_status = Pending | Approved | Rejected | Cancelled

text \<open>The authenticated user that \<open>authenticateToken\<close> stores in \<open>req.user\<close>.\<close>

record user =
  u_id :: uuid
  role :: user_role

record facility =
  f_id :: uuid
  f_name :: string
  capacity :: int
  requires_approval :: bool
  operating_hours_start :: time_of_day
  operating_hours_end :: time_of_day
  is_active :: bool

record booking =
  b_id :: uuid
  facility_id :: uuid
  user_id :: uuid
  booking_date :: date
  start_time :: time_of_day
  end_time :: time_of_day
  status :: booking_status
  purpose :: "string option"
  "notes" :: "string option"
  admin_notes :: "string option"
  approved_by :: "uuid option"
  approved_at :: "timestamp option"
  created_at :: timestamp
  updated_at :: timestamp

record database =
  facilities :: "facility list"
  facility_bookings :: "booking list"

text \<open>
  What a request handler reads from outside the request: the identifier that
  \<open>gen_random_uuid()\<close> draws for an inserted row, the clock of the handler
  (\<open>new Date()\<close>) and the clock of the store (\<open>now()\<close>).
\<close>

record env =
  gen_random_uuid :: uuid
  js_now :: timestamp
  db_now :: timestamp

text \<open>The JSON responses of the handlers, by their \<open>error\<close> message, and their status codes.\<close>

datatype error =
    Unauthorized
  | ValidationError
  | FacilityNotFound
  | InvalidTimeRange
  | ConflictCheckFailed
  | Conflict
  | CreateFailed
  | AdminRequired
  | UpdateStatusFailed
  | BookingNotPending
  | BookingNotFound
  | AccessDenied
  | AlreadyCancelled
  | PastBooking
  | CancelFailed
  | FetchFailed

fun http_status :: "error \<Rightarrow> nat" where
  "http_status Unauthorized = 401"
| "http_status ValidationError = 400"
| "http_status FacilityNotFound = 404"
| "http_status InvalidTimeRange = 400"
| "http_status ConflictCheckFailed = 500"
| "http_status Conflict = 409"
| "http_status CreateFailed = 500"
| "http_status AdminRequired = 403"
| "http_status UpdateStatusFailed = 500"
| "http_status BookingNotPending = 404"
| "http_status BookingNotFound = 404"
| "http_status AccessDenied = 403"
| "http_status AlreadyCancelled = 400"
| "http_status PastBooking = 400"
| "http_status CancelFailed = 500"
| "http_status FetchFailed = 500"

section \<open>Strings and times of day\<close>

text \<open>
  The relational operators of JavaScript on two strings: lexicographic on the code
  units, a proper prefix being smaller.
\<close>

fun js_string_lt :: "string \<Rightarrow> string \<Rightarrow> bool" where
  "js_string_lt [] [] = False"
| "js_string_lt [] (y # ys) = True"
| "js_string_lt (x # xs) [] = False"
| "js_string_lt (x # xs) (y # ys) =
     ((of_char x :: nat) < of_char y \<or> (x = y \<and> js_string_lt xs ys))"

definition is_digit :: "char \<Rightarrow> bool" where
  "is_digit c = (48 \<le> (of_char c :: nat) \<and> (of_char c :: nat) \<le> 57)"

definition digit_val :: "char \<Rightarrow> nat" where
  "digit_val c = of_char c - 48"

text \<open>The pattern \<open>/^([0-1]?[0-9]|2[0-3]):[0-5][0-9]$/\<close> of \<open>createBookingSchema\<close>.\<close>

fun time_pattern :: "string \<Rightarrow> bool" where
  "time_pattern [h, c, m1, m2] =
     (is_digit h \<and> c = CHR '':'' \<and> is_digit m1 \<and> digit_val m1 \<le> 5 \<and> is_digit m2)"
| "time_pattern [h1, h2, c, m1, m2] =
     (is_digit h1 \<and> is_digit h2 \<and>
      (digit_val h1 \<le> 1 \<or> (digit_val h1 = 2 \<and> digit_val h2 \<le> 3)) \<and>
      c = CHR '':'' \<and> is_digit m1 \<and> digit_val m1 \<le> 5 \<and> is_digit m2)"
| "time_pattern _ = False"

text \<open>
  The value the store reads from a time literal of the request (\<open>H:MM\<close> or \<open>HH:MM\<close>);
  any other text is an input error of the store.
\<close>

fun time_in :: "string \<Rightarrow> time_of_day option" where
  "time_in [h, c, m1, m2] =
     (if time_pattern [h, c, m1, m2]
      then Some ((digit_val h * 60 + (digit_val m1 * 10 + digit_val m2)) * 60)
      else None)"
| "time_in [h1, h2, c, m1, m2] =
     (if time_pattern [h1, h2, c, m1, m2]
      then Some (((digit_val h1 * 10 + digit_val h2) * 60 + (digit_val m1 * 10 + digit_val m2)) * 60)
      else None)"
| "time_in _ = None"

text \<open>The text \<open>HH:MM:SS\<close> the store returns for a \<open>time\<close> column.\<close>

definition digit_char :: "nat \<Rightarrow> char" where
  "digit_char n = char_of (48 + n mod 10)"

definition two_digits :: "nat \<Rightarrow> string" where
  "two_digits n = [digit_char (n div 10), digit_char n]"

definition time_out :: "time_of_day \<Rightarrow> string" where
  "time_out t =
     two_digits (t div 3600) @ [CHR '':''] @ two_digits (t div 60 mod 60) @ [CHR '':''] @
     two_digits (t mod 60)"

section \<open>The store\<close>

text \<open>
  A query of the client library answers with a pair of \<open>data\<close> and \<open>error\<close>.  With
  \<open>.single()\<close> the answer is the selected row when the statement selects exactly one
  row, and an error (no data) when it selects none or several.  The store is taken to
  be reachable: the only errors are those of the statements themselves.
\<close>

datatype db_error = NotSingleRow | UniqueViolation

type_synonym 'a db_response = "'a option \<times> db_error option"

definition single :: "'a list \<Rightarrow> 'a db_response" where
  "single rows = (case rows of [r] \<Rightarrow> (Some r, None) | _ \<Rightarrow> (None, Some NotSingleRow))"

text \<open>
  \<open>insert(row).select().single()\<close> on \<open>facility_bookings\<close>: the primary key rejects a
  row whose \<open>id\<close> is already in the table.
\<close>

definition insert_single :: "booking \<Rightarrow> booking list \<Rightarrow> booking db_response \<times> booking list" where
  "insert_single row rows =
     (if b_id row \<in> set (map b_id rows) then ((None, Some UniqueViolation), rows)
      else ((Some row, None), rows @ [row]))"

text \<open>
  \<open>update(values).eq(...).select().single()\<close> on \<open>facility_bookings\<close>: the rows that
  match the filter take the new values, and the trigger
  \<open>update_facility_bookings_updated_at\<close> stamps each of them; unless exactly one row
  matches, the answer is an error and the table is left as it was.
\<close>

definition update_single ::
  "env \<Rightarrow> (booking \<Rightarrow> bool) \<Rightarrow> (booking \<Rightarrow> booking) \<Rightarrow> booking list \<Rightarrow>
   booking db_response \<times> booking list" where
  "update_single env matches values rows =
     (case filter matches rows of
        [r] \<Rightarrow> ((Some ((values r)\<lparr>updated_at := db_now env\<rparr>), None),
                map (\<lambda>b. if matches b then (values b)\<lparr>updated_at := db_now env\<rparr> else b) rows)
      | _ \<Rightarrow> ((None, Some NotSingleRow), rows))"

section \<open>Conflict detection\<close>

text \<open>
  The \<open>or\<close> filter of the conflict query of \<open>createBooking\<close>, for a requested slot from
  \<open>s\<close> to \<open>e\<close> and a stored row from \<open>a\<close> to \<open>b\<close>:
  \<open>and(start_time.lte.s,end_time.gt.s)\<close>, \<open>and(start_time.lt.e,end_time.gte.e)\<close>,
  \<open>and(start_time.gte.s,end_time.lte.e)\<close>.
\<close>

definition slot_filter :: "time_of_day \<Rightarrow> time_of_day \<Rightarrow> time_of_day \<Rightarrow> time_of_day \<Rightarrow> bool" where
  "slot_filter s e a b = ((a \<le> s \<and> b > s) \<or> (a < e \<and> b \<ge> e) \<or> (a \<ge> s \<and> b \<le> e))"

text \<open>The overlap of two half-open intervals as the specification words it.\<close>

definition overlaps :: "time_of_day \<Rightarrow> time_of_day \<Rightarrow> time_of_day \<Rightarrow> time_of_day \<Rightarrow> bool" where
  "overlaps s1 e1 s2 e2 = (s1 < e2 \<and> s2 < e1)"

definition conflictingBookings ::
  "uuid \<Rightarrow> date \<Rightarrow> time_of_day \<Rightarrow> time_of_day \<Rightarrow> booking list \<Rightarrow> booking list" where
  "conflictingBookings fid d s e rows =
     filter (\<lambda>b. facility_id b = fid \<and> booking_date b = d \<and>
                 status b \<in> set [Approved, Pending] \<and>
                 slot_filter s e (start_time b) (end_time b)) rows"

section \<open>The handlers of the facility controller\<close>

record create_booking_request =
  rq_facility_id :: uuid
  rq_booking_date :: date
  rq_start_time :: string
  rq_end_time :: string
  rq_purpose :: "string option"
  rq_notes :: "string option"

datatype decision = DecideApproved | DecideRejected

fun decision_status :: "decision \<Rightarrow> booking_status" where
  "decision_status DecideApproved = Approved"
| "decision_status DecideRejected = Rejected"

record approve_booking_request =
  ap_status :: decision
  ap_admin_notes :: "string option"

text \<open>
  A handler answers with an error or with the booking row of the store's answer
  (\<open>None\<close> is the JSON \<open>null\<close>), and leaves the database in a new state.
\<close>

type_synonym booking_response = "(error + booking option) \<times> database"

text \<open>
  \<open>createBooking\<close>.  The operating hours arrive from the store as text and are compared
  with the texts of the request by the operators of the language; the conflict query
  and the insertion hand the texts of the request to the store, which reads them as
  times.
\<close>

definition createBooking :: "env \<Rightarrow> user \<Rightarrow> create_booking_request \<Rightarrow> database \<Rightarrow> booking_response" where
  "createBooking env actor body db =
     (case single (filter (\<lambda>f. f_id f = rq_facility_id body \<and> is_active f) (facilities db)) of
        (Some fac, None) \<Rightarrow>
          if js_string_lt (rq_start_time body) (time_out (operating_hours_start fac)) \<or>
             js_string_lt (time_out (operating_hours_end fac)) (rq_end_time body)
          then (Inl InvalidTimeRange, db)
          else
            (case (time_in (rq_start_time body), time_in (rq_end_time body)) of
               (Some s, Some e) \<Rightarrow>
                 if length (conflictingBookings (rq_facility_id body) (rq_booking_date body) s e
                              (facility_bookings db)) > 0
                 then (Inl Conflict, db)
                 else
                   let initialStatus = (if requires_approval fac then Pending else Approved);
                       row = \<lparr> b_id = gen_random_uuid env,
                               facility_id = rq_facility_id body,
                               user_id = u_id actor,
                               booking_date = rq_booking_date body,
                               start_time = s,
                               end_time = e,
                               status = initialStatus,
                               purpose = rq_purpose body,
                               notes = rq_notes body,
                               admin_notes = None,
                               approved_by = (if initialStatus = Approved then Some (u_id actor) else None),
                               approved_at = (if initialStatus = Approved then Some (js_now env) else None),
                               created_at = db_now env,
                               updated_at = db_now env \<rparr>
                   in (case insert_single row (facility_bookings db) of
                         ((booking, None), rows') \<Rightarrow> (Inr booking, db\<lparr>facility_bookings := rows'\<rparr>)
                       | ((booking, Some err), rows') \<Rightarrow> (Inl CreateFailed, db\<lparr>facility_bookings := rows'\<rparr>))
             | _ \<Rightarrow> (Inl ConflictCheckFailed, db))
      | _ \<Rightarrow> (Inl FacilityNotFound, db))"

text \<open>
  \<open>approveBooking\<close>.  A key of \<open>updateData\<close> whose value is \<open>undefined\<close> is not sent, so
  \<open>admin_notes\<close> is written only when the request has it.
\<close>

definition approveBooking ::
  "env \<Rightarrow> user \<Rightarrow> uuid \<Rightarrow> approve_booking_request \<Rightarrow> database \<Rightarrow> booking_response" where
  "approveBooking env actor ident body db =
     (if role actor \<noteq> Admin then (Inl AdminRequired, db)
      else
        let updateData = (\<lambda>b. b\<lparr> status := decision_status (ap_status body),
                                  admin_notes := (case ap_admin_notes body of
                                                    None \<Rightarrow> admin_notes b | Some n \<Rightarrow> Some n),
                                  approved_by := Some (u_id actor),
                                  approved_at := Some (js_now env) \<rparr>)
        in (case update_single env (\<lambda>b. b_id b = ident \<and> status b = Pending) updateData
                   (facility_bookings db) of
              ((booking, Some err), rows') \<Rightarrow> (Inl UpdateStatusFailed, db\<lparr>facility_bookings := rows'\<rparr>)
            | ((None, None), rows') \<Rightarrow> (Inl BookingNotPending, db\<lparr>facility_bookings := rows'\<rparr>)
            | ((Some booking, None), rows') \<Rightarrow> (Inr (Some booking), db\<lparr>facility_bookings := rows'\<rparr>)))"

text \<open>
  \<open>new Date(`${booking_date}T${start_time}`)\<close>: the instant of a date and a time of day.
\<close>

definition bookingDateTime :: "date \<Rightarrow> time_of_day \<Rightarrow> timestamp" where
  "bookingDateTime d t = (int d * 86400 + int t) * 1000"

definition cancelBooking :: "env \<Rightarrow> user \<Rightarrow> uuid \<Rightarrow> database \<Rightarrow> booking_response" where
  "cancelBooking env actor ident db =
     (case single (filter (\<lambda>b. b_id b = ident) (facility_bookings db)) of
        (Some existingBooking, None) \<Rightarrow>
          if role actor \<noteq> Admin \<and> user_id existingBooking \<noteq> u_id actor
          then (Inl AccessDenied, db)
          else if status existingBooking = Cancelled
          then (Inl AlreadyCancelled, db)
          else if bookingDateTime (booking_date existingBooking) (start_time existingBooking) < js_now env
          then (Inl PastBooking, db)
          else
            (case update_single env (\<lambda>b. b_id b = ident) (\<lambda>b. b\<lparr>status := Cancelled\<rparr>)
                    (facility_bookings db) of
               ((booking, Some err), rows') \<Rightarrow> (Inl CancelFailed, db\<lparr>facility_bookings := rows'\<rparr>)
             | ((booking, None), rows') \<Rightarrow> (Inr booking, db\<lparr>facility_bookings := rows'\<rparr>))
      | _ \<Rightarrow> (Inl BookingNotFound, db))"

text \<open>
  \<open>getFacilityBookings\<close>.  \<open>parseInt(...) || d\<close> is \<open>d\<close> for a missing or non-numeric
  parameter and for zero.  A \<open>status\<close> parameter that is not a value of the
  \<open>booking_status\<close> enumeration is an input error of the store, and so is a range
  that starts below zero or has no positive length.
\<close>

record bookings_query =
  q_page :: "int option"
  q_limit :: "int option"
  q_status :: string
  q_date :: "date option"

record bookings_page =
  pg_data :: "booking list"
  pg_page :: int
  pg_limit :: int
  pg_total :: nat
  pg_totalPages :: int

definition parseInt_or :: "int option \<Rightarrow> int \<Rightarrow> int" where
  "parseInt_or p d = (case p of None \<Rightarrow> d | Some n \<Rightarrow> if n = 0 then d else n)"

definition status_in :: "string \<Rightarrow> booking_status option" where
  "status_in s =
     (if s = ''pending'' then Some Pending
      else if s = ''approved'' then Some Approved
      else if s = ''rejected'' then Some Rejected
      else if s = ''cancelled'' then Some Cancelled
      else None)"

text \<open>
  The query that \<open>getFacilityBookings\<close> builds before it asks for a range: the rows of
  the facility; for an actor who is not an administrator, only those that are approved
  or the actor's own; then the \<open>status\<close> and \<open>date\<close> filters when the parameters are
  given; ordered by date and start time.
\<close>

definition facility_bookings_query ::
  "user \<Rightarrow> uuid \<Rightarrow> bookings_query \<Rightarrow> booking list \<Rightarrow> booking list" where
  "facility_bookings_query actor facilityId q rows =
     sort_key (\<lambda>b. (booking_date b, start_time b))
       (filter (\<lambda>b. case q_date q of Some d \<Rightarrow> booking_date b = d | None \<Rightarrow> True)
         (filter (\<lambda>b. q_status q = [] \<or> Some (status b) = status_in (q_status q))
           (filter (\<lambda>b. role actor = Admin \<or> status b = Approved \<or> user_id b = u_id actor)
             (filter (\<lambda>b. facility_id b = facilityId) rows))))"

definition getFacilityBookings ::
  "user \<Rightarrow> uuid \<Rightarrow> bookings_query \<Rightarrow> database \<Rightarrow> error + bookings_page" where
  "getFacilityBookings actor facilityId q db =
     (let page = parseInt_or (q_page q) 1;
          limit = parseInt_or (q_limit q) 10;
          offset = (page - 1) * limit;
          bookings = facility_bookings_query actor facilityId q (facility_bookings db)
      in if (q_status q \<noteq> [] \<and> status_in (q_status q) = None) \<or> offset < 0 \<or> limit < 1
         then Inl FetchFailed
         else Inr \<lparr> pg_data = take (nat limit) (drop (nat offset) bookings),
                    pg_page = page,
                    pg_limit = limit,
                    pg_total = length bookings,
                    pg_totalPages = - ((- int (length bookings)) div limit) \<rparr>)"

section \<open>The route \<open>POST /:id/bookings\<close>\<close>

text \<open>
  A request as the middleware chain of the route sees it: the user that
  \<open>authenticateToken\<close> resolved from the bearer token (none when the token is refused),
  the \<open>:id\<close> parameter of the path, and the JSON body.
\<close>

record 'a request =
  req_user :: "user option"
  params_id :: uuid
  req_body :: 'a

text \<open>
  \<open>createBookingSchema\<close>: \<open>booking_date\<close> is a date not before the present instant,
  the two times match the pattern, and \<open>purpose\<close> and \<open>notes\<close>, when present, are
  non-empty texts of at most 500 and 1000 characters.
\<close>

definition createBookingSchema :: "env \<Rightarrow> create_booking_request \<Rightarrow> bool" where
  "createBookingSchema env body =
     (js_now env \<le> int (rq_booking_date body) * 86400000 \<and>
      time_pattern (rq_start_time body) \<and>
      time_pattern (rq_end_time body) \<and>
      (case rq_purpose body of None \<Rightarrow> True | Some p \<Rightarrow> p \<noteq> [] \<and> length p \<le> 500) \<and>
      (case rq_notes body of None \<Rightarrow> True | Some n \<Rightarrow> n \<noteq> [] \<and> length n \<le> 1000))"

definition validateRequest ::
  "('a \<Rightarrow> bool) \<Rightarrow> 'a request \<Rightarrow> database \<Rightarrow> ('a request \<Rightarrow> database \<Rightarrow> booking_response) \<Rightarrow>
   booking_response" where
  "validateRequest schema req db next =
     (if \<not> schema (req_body req) then (Inl ValidationError, db) else next req db)"

definition post_facility_bookings ::
  "env \<Rightarrow> create_booking_request request \<Rightarrow> database \<Rightarrow> booking_response" where
  "post_facility_bookings env req db =
     (case req_user req of
        None \<Rightarrow> (Inl Unauthorized, db)
      | Some u \<Rightarrow>
          validateRequest (createBookingSchema env) req db
            (\<lambda>r d. createBooking env u (req_body r) d))"

section \<open>Sequences of operations\<close>

datatype operation =
    CreateBooking env user create_booking_request
  | ApproveOrReject env user uuid approve_booking_request
  | CancelBooking env user uuid

fun perform :: "operation \<Rightarrow> database \<Rightarrow> database" where
  "perform (CreateBooking env actor body) db = snd (createBooking env actor body db)"
| "perform (ApproveOrReject env actor ident body) db = snd (approveBooking env actor ident body db)"
| "perform (CancelBooking env actor ident) db = snd (cancelBooking env actor ident db)"

fun perform_all :: "operation list \<Rightarrow> database \<Rightarrow> database" where
  "perform_all [] db = db"
| "perform_all (op # ops) db = perform_all ops (perform op db)"

text \<open>
  \<open>createBooking\<close> reaches the store in separate awaited calls, with no transaction
  around them: first the reads (the facility, then the conflict query), later the
  insertion.  \<open>createBooking_select\<close> is the handler up to the insertion: it answers an
  error, or the row that the handler goes on to insert.  \<open>createBooking_insert\<close> is
  the insertion and the answer that follows it.
\<close>

definition createBooking_select ::
  "env \<Rightarrow> user \<Rightarrow> create_booking_request \<Rightarrow> database \<Rightarrow> error + booking" where
  "createBooking_select env actor body db =
     (case single (filter (\<lambda>f. f_id f = rq_facility_id body \<and> is_active f) (facilities db)) of
        (Some fac, None) \<Rightarrow>
          if js_string_lt (rq_start_time body) (time_out (operating_hours_start fac)) \<or>
             js_string_lt (time_out (operating_hours_end fac)) (rq_end_time body)
          then Inl InvalidTimeRange
          else
            (case (time_in (rq_start_time body), time_in (rq_end_time body)) of
               (Some s, Some e) \<Rightarrow>
                 if length (conflictingBookings (rq_facility_id body) (rq_booking_date body) s e
                              (facility_bookings db)) > 0
                 then Inl Conflict
                 else
                   let initialStatus = (if requires_approval fac then Pending else Approved)
                   in Inr \<lparr> b_id = gen_random_uuid env,
                            facility_id = rq_facility_id body,
                            user_id = u_id actor,
                            booking_date = rq_booking_date body,
                            start_time = s,
                            end_time = e,
                            status = initialStatus,
                            purpose = rq_purpose body,
                            notes = rq_notes body,
                            admin_notes = None,
                            approved_by = (if initialStatus = Approved then Some (u_id actor) else None),
                            approved_at = (if initialStatus = Approved then Some (js_now env) else None),
                            created_at = db_now env,
                            updated_at = db_now env \<rparr>
             | _ \<Rightarrow> Inl ConflictCheckFailed)
      | _ \<Rightarrow> Inl FacilityNotFound)"

definition createBooking_insert :: "booking \<Rightarrow> database \<Rightarrow> booking_response" where
  "createBooking_insert row db =
     (case insert_single row (facility_bookings db) of
        ((booking, None), rows') \<Rightarrow> (Inr booking, db\<lparr>facility_bookings := rows'\<rparr>)
      | ((booking, Some err), rows') \<Rightarrow> (Inl CreateFailed, db\<lparr>facility_bookings := rows'\<rparr>))"

text \<open>
  Requests in flight together.  An event is a whole handler call, or one of the two
  parts of a \<open>createBooking\<close> call numbered \<open>k\<close>: its reads, after which the row it will
  insert waits under \<open>k\<close>, and its insertion.  Between the two parts of one call any
  other event may run.
\<close>

datatype event =
    Handler operation
  | Select nat env user create_booking_request
  | Insert nat

record system =
  store :: database
  in_flight :: "(nat \<times> booking) list"

fun run_event :: "event \<Rightarrow> system \<Rightarrow> system" where
  "run_event (Handler op) sys = sys\<lparr>store := perform op (store sys)\<rparr>"
| "run_event (Select k env actor body) sys =
     (case createBooking_select env actor body (store sys) of
        Inl e \<Rightarrow> sys
      | Inr row \<Rightarrow> sys\<lparr>in_flight := (k, row) # in_flight sys\<rparr>)"
| "run_event (Insert k) sys =
     (case map_of (in_flight sys) k of
        None \<Rightarrow> sys
      | Some row \<Rightarrow>
          \<lparr> store = snd (createBooking_insert row (store sys)),
            in_flight = filter (\<lambda>p. fst p \<noteq> k) (in_flight sys) \<rparr>)"

fun run_events :: "event list \<Rightarrow> system \<Rightarrow> system" where
  "run_events [] sys = sys"
| "run_events (ev # evs) sys = run_events evs (run_event ev sys)"

text \<open>
  Two rows clash when they are for the same facility and date, both count for the
  conflict query, and their intervals overlap.  A table is free of double bookings
  when no two rows at different positions clash.
\<close>

definition active :: "booking \<Rightarrow> bool" where
  "active b = (status b = Pending \<or> status b = Approved)"

definition clash :: "booking \<Rightarrow> booking \<Rightarrow> bool" where
  "clash b c =
     (facility_id b = facility_id c \<and> booking_date b = booking_date c \<and>
      active b \<and> active c \<and>
      overlaps (start_time b) (end_time b) (start_time c) (end_time c))"

fun no_double_booking :: "booking list \<Rightarrow> bool" where
  "no_double_booking [] = True"
| "no_double_booking (b # bs) = ((\<forall>c \<in> set bs. \<not> clash b c) \<and> no_double_booking bs)"

text \<open>The primary key of \<open>facility_bookings\<close>.\<close>

definition primary_key :: "booking list \<Rightarrow> bool" where
  "primary_key rows = distinct (map b_id rows)"

section \<open>Example data\<close>

text \<open>
  Two facilities open from 08:00 to 20:00, the first booked without approval and the
  second with; two residents and an administrator; requests and rows for day 20000,
  far after the instant 1000 at which the handlers run.
\<close>

definition facility_x :: facility where
  "facility_x = \<lparr> f_id = 1, f_name = ''Gym'', capacity = 25, requires_approval = False,
      operating_hours_start = 28800, operating_hours_end = 72000, is_active = True \<rparr>"

definition facility_y :: facility where
  "facility_y = \<lparr> f_id = 2, f_name = ''Meeting Room A'', capacity = 30, requires_approval = True,
      operating_hours_start = 28800, operating_hours_end = 72000, is_active = True \<rparr>"

definition resident_a :: user where
  "resident_a = \<lparr> u_id = 10, role = Resident \<rparr>"

definition resident_b :: user where
  "resident_b = \<lparr> u_id = 11, role = Resident \<rparr>"

definition admin_c :: user where
  "admin_c = \<lparr> u_id = 12, role = Admin \<rparr>"

definition env_at :: "uuid \<Rightarrow> env" where
  "env_at n = \<lparr> gen_random_uuid = n, js_now = 1000, db_now = 1001 \<rparr>"

definition slot_request :: "uuid \<Rightarrow> string \<Rightarrow> string \<Rightarrow> create_booking_request" where
  "slot_request f s e =
     \<lparr> rq_facility_id = f, rq_booking_date = 20000, rq_start_time = s, rq_end_time = e,
       rq_purpose = None, rq_notes = None \<rparr>"

definition booking_row ::
  "uuid \<Rightarrow> uuid \<Rightarrow> uuid \<Rightarrow> time_of_day \<Rightarrow> time_of_day \<Rightarrow> booking_status \<Rightarrow> booking" where
  "booking_row i f u s e st =
     \<lparr> b_id = i, facility_id = f, user_id = u, booking_date = 20000, start_time = s,
       end_time = e, status = st, purpose = None, notes = None, admin_notes = None,
       approved_by = None, approved_at = None, created_at = 500, updated_at = 500 \<rparr>"

definition db_with :: "booking list \<Rightarrow> database" where
  "db_with rows = \<lparr> facilities = [facility_x, facility_y], facility_bookings = rows \<rparr>"

definition approve_request :: approve_booking_request where
  "approve_request = \<lparr> ap_status = DecideApproved, ap_admin_notes = None \<rparr>"

text \<open>
  A table with one row of each status at the first facility, owned in turn by the two
  residents, and one row at the second facility; and a listing request without filters.
\<close>

definition mixed_rows :: "booking list" where
  "mixed_rows =
     [booking_row 100 1 10 36000 43200 Approved,
      booking_row 101 1 11 43200 46800 Pending,
      booking_row 102 1 10 46800 50400 Rejected,
      booking_row 103 1 11 50400 54000 Cancelled,
      booking_row 104 2 11 36000 43200 Approved]"

definition no_filters :: "int option \<Rightarrow> bookings_query" where
  "no_filters lim = \<lparr> q_page = None, q_limit = lim, q_status = [], q_date = None \<rparr>"

text \<open>
  A day at the first facility, starting from one approved booking from 10:00 to 12:00:
  an overlapping request, a request that touches it at 12:00, a request for the second
  facility and its approval, the cancellation of the first booking, and a request for
  the hour that the cancellation frees.
\<close>

definition day_of_operations :: "operation list" where
  "day_of_operations =
     [CreateBooking (env_at 101) resident_b (slot_request 1 ''11:00'' ''13:00''),
      CreateBooking (env_at 102) resident_b (slot_request 1 ''12:00'' ''13:00''),
      CreateBooking (env_at 103) resident_a (slot_request 2 ''10:00'' ''12:00''),
      ApproveOrReject (env_at 0) admin_c 103 approve_request,
      CancelBooking (env_at 0) resident_a 100,
      CreateBooking (env_at 104) resident_b (slot_request 1 ''11:00'' ''12:00'')]"

text \<open>
  The changes of status that a stored row can go through: a pending row can take any
  status, an approved or rejected row can only be cancelled, a cancelled row stays
  cancelled.
\<close>

fun later_status :: "booking_status \<Rightarrow> booking_status \<Rightarrow> bool" where
  "later_status Pending s = True"
| "later_status Approved s = (s = Approved \<or> s = Cancelled)"
| "later_status Rejected s = (s = Rejected \<or> s = Cancelled)"
| "later_status Cancelled s = (s = Cancelled)"

section \<open>Conflict detection and the invariant of the table\<close>

lemma overlaps_imp_slot_filter: "overlaps a b s e \<Longrightarrow> slot_filter s e a b"
  unfolding overlaps_def slot_filter_def by arith

lemma slot_filter_imp_overlaps: "s < e \<Longrightarrow> a < b \<Longrightarrow> slot_filter s e a b \<Longrightarrow> overlaps a b s e"
  unfolding overlaps_def slot_filter_def by arith

lemma common_instant_overlaps:
  "s1 \<le> t \<Longrightarrow> t < e1 \<Longrightarrow> s2 \<le> t \<Longrightarrow> t < e2 \<Longrightarrow> overlaps s1 e1 s2 e2"
  unfolding overlaps_def by arith

lemma no_double_booking_append:
  "no_double_booking (rows @ [r]) = (no_double_booking rows \<and> (\<forall>b \<in> set rows. \<not> clash b r))"
  by (induction rows) auto

lemma no_double_booking_map:
  assumes "\<And>b c. clash (f b) (f c) \<Longrightarrow> clash b c"
  shows "no_double_booking rows \<Longrightarrow> no_double_booking (map f rows)"
  using assms by (induction rows) auto

lemma clash_needs_conflict_row:
  assumes "clash b r" "b \<in> set rows"
  shows "b \<in> set (conflictingBookings (facility_id r) (booking_date r) (start_time r) (end_time r) rows)"
  using assms overlaps_imp_slot_filter[of "start_time b" "end_time b" "start_time r" "end_time r"]
  by (auto simp: clash_def active_def conflictingBookings_def)

lemma createBooking_rows:
  assumes "createBooking env actor body db = (resp, db')"
  shows "facilities db' = facilities db \<and>
     (facility_bookings db' = facility_bookings db \<or>
      (\<exists>r. facility_bookings db' = facility_bookings db @ [r] \<and> resp = Inr (Some r) \<and>
           b_id r = gen_random_uuid env \<and>
           conflictingBookings (facility_id r) (booking_date r) (start_time r) (end_time r)
              (facility_bookings db) = []))"
  using assms unfolding createBooking_def
  by (auto simp: Let_def insert_single_def split: prod.splits option.splits if_splits)


lemma approveBooking_rows:
  assumes "approveBooking env actor ident body db = (resp, db')"
  shows "facilities db' = facilities db \<and>
     (facility_bookings db' = facility_bookings db \<or>
      facility_bookings db' =
        map (\<lambda>b. if b_id b = ident \<and> status b = Pending
                 then b\<lparr> status := decision_status (ap_status body),
                         admin_notes := (case ap_admin_notes body of None \<Rightarrow> admin_notes b | Some n \<Rightarrow> Some n),
                         approved_by := Some (u_id actor),
                         approved_at := Some (js_now env),
                         updated_at := db_now env \<rparr>
                 else b) (facility_bookings db))"
  using assms unfolding approveBooking_def
  by (auto simp: Let_def update_single_def split: prod.splits option.splits if_splits list.splits)

lemma cancelBooking_rows:
  assumes "cancelBooking env actor ident db = (resp, db')"
  shows "facilities db' = facilities db \<and>
     (facility_bookings db' = facility_bookings db \<or>
      facility_bookings db' =
        map (\<lambda>b. if b_id b = ident then b\<lparr> status := Cancelled, updated_at := db_now env \<rparr> else b)
          (facility_bookings db))"
  using assms unfolding cancelBooking_def
  by (auto simp: Let_def update_single_def split: prod.splits option.splits if_splits list.splits)

lemma createBooking_keeps_invariant:
  assumes "no_double_booking (facility_bookings db)"
  shows "no_double_booking (facility_bookings (snd (createBooking env actor body db)))"
proof -
  obtain resp db' where r: "createBooking env actor body db = (resp, db')"
    by (cases "createBooking env actor body db")
  from createBooking_rows[OF r] consider
      "facility_bookings db' = facility_bookings db"
    | row where "facility_bookings db' = facility_bookings db @ [row]"
        "conflictingBookings (facility_id row) (booking_date row) (start_time row) (end_time row)
           (facility_bookings db) = []"
    by blast
  then have "no_double_booking (facility_bookings db')"
  proof cases
    case 1
    with assms show ?thesis by simp
  next
    case 2
    have "\<not> clash b row" if "b \<in> set (facility_bookings db)" for b
      using clash_needs_conflict_row[of b row "facility_bookings db"] that 2(2) by auto
    with assms 2(1) show ?thesis by (simp add: no_double_booking_append)
  qed
  with r show ?thesis by simp
qed

lemma approveBooking_keeps_invariant:
  assumes "no_double_booking (facility_bookings db)"
  shows "no_double_booking (facility_bookings (snd (approveBooking env actor ident body db)))"
proof -
  obtain resp db' where r: "approveBooking env actor ident body db = (resp, db')"
    by (cases "approveBooking env actor ident body db")
  have "no_double_booking (facility_bookings db')"
    using approveBooking_rows[OF r] assms
    by (auto intro!: no_double_booking_map simp: clash_def active_def split: if_splits)
  with r show ?thesis by simp
qed

lemma cancelBooking_keeps_invariant:
  assumes "no_double_booking (facility_bookings db)"
  shows "no_double_booking (facility_bookings (snd (cancelBooking env actor ident db)))"
proof -
  obtain resp db' where r: "cancelBooking env actor ident db = (resp, db')"
    by (cases "cancelBooking env actor ident db")
  have "no_double_booking (facility_bookings db')"
    using cancelBooking_rows[OF r] assms
    by (auto intro!: no_double_booking_map simp: clash_def active_def split: if_splits)
  with r show ?thesis by simp
qed

lemma perform_keeps_invariant:
  "no_double_booking (facility_bookings db) \<Longrightarrow> no_double_booking (facility_bookings (perform op db))"
  by (cases op)
     (simp_all add: createBooking_keeps_invariant approveBooking_keeps_invariant
        cancelBooking_keeps_invariant)

text \<open>
  C1, as amended.  Whatever sequence of \<open>createBooking\<close>, \<open>approveBooking\<close> and
  \<open>cancelBooking\<close> calls runs on a table free of double bookings, each call finishing
  before the next begins, the table stays free of them: no two rows for the same
  facility and date, both pending or approved, have overlapping intervals from
  \<open>start_time\<close> to \<open>end_time\<close>.
\<close>

theorem no_double_booking_reachable:
  "no_double_booking (facility_bookings db) \<Longrightarrow>
   no_double_booking (facility_bookings (perform_all ops db))"
  by (induction ops arbitrary: db) (simp_all add: perform_keeps_invariant)

theorem no_double_booking_reachable_witness:
  "no_double_booking (facility_bookings (db_with [booking_row 100 1 10 36000 43200 Approved])) \<and>
   map status (facility_bookings (perform_all day_of_operations (db_with [booking_row 100 1 10 36000 43200 Approved])))
     = [Cancelled, Approved, Approved, Approved] \<and>
   no_double_booking (facility_bookings (perform_all day_of_operations (db_with [booking_row 100 1 10 36000 43200 Approved])))"
proof -
  have h: "no_double_booking (facility_bookings (db_with [booking_row 100 1 10 36000 43200 Approved]))"
    by code_simp
  have s: "map status (facility_bookings (perform_all day_of_operations (db_with [booking_row 100 1 10 36000 43200 Approved])))
     = [Cancelled, Approved, Approved, Approved]"
    by code_simp
  from h s no_double_booking_reachable[OF h, of day_of_operations] show ?thesis by blast
qed

lemma createBooking_two_store_calls:
  "createBooking env actor body db =
     (case createBooking_select env actor body db of
        Inl e \<Rightarrow> (Inl e, db)
      | Inr row \<Rightarrow> createBooking_insert row db)"
  unfolding createBooking_def createBooking_select_def createBooking_insert_def
  by (auto simp: Let_def split: prod.splits option.splits if_splits)

lemma select_then_insert_is_createBooking:
  "store (run_events [Select k env actor body, Insert k] \<lparr>store = db, in_flight = []\<rparr>) =
     perform (CreateBooking env actor body) db"
  by (simp add: createBooking_two_store_calls split: sum.splits)

lemma handlers_in_turn:
  "store (run_events (map Handler ops) sys) = perform_all ops (store sys)"
  by (induction ops arbitrary: sys) simp_all

text \<open>
  C1 as stated fails when two \<open>createBooking\<close> calls are in flight together: both read
  the empty table, so neither conflict query finds a row, and then both insert.  The
  requests for 10:00 to 12:00 and for 11:00 to 13:00 at the first facility are both
  stored as approved, and the table holds a double booking.
\<close>

theorem interleaved_createBooking_counterexample:
  "no_double_booking (facility_bookings (db_with [])) \<and>
   createBooking_select (env_at 100) resident_a (slot_request 1 ''10:00'' ''12:00'') (db_with []) =
     Inr ((booking_row 100 1 10 36000 43200 Approved)
           \<lparr>approved_by := Some 10, approved_at := Some 1000, created_at := 1001, updated_at := 1001\<rparr>) \<and>
   createBooking_select (env_at 101) resident_b (slot_request 1 ''11:00'' ''13:00'') (db_with []) =
     Inr ((booking_row 101 1 11 39600 46800 Approved)
           \<lparr>approved_by := Some 11, approved_at := Some 1000, created_at := 1001, updated_at := 1001\<rparr>) \<and>
   store (run_events
       [Select 1 (env_at 100) resident_a (slot_request 1 ''10:00'' ''12:00''),
        Select 2 (env_at 101) resident_b (slot_request 1 ''11:00'' ''13:00''),
        Insert 1,
        Insert 2]
       \<lparr>store = db_with [], in_flight = []\<rparr>) =
     db_with [(booking_row 100 1 10 36000 43200 Approved)
           \<lparr>approved_by := Some 10, approved_at := Some 1000, created_at := 1001, updated_at := 1001\<rparr>,
         (booking_row 101 1 11 39600 46800 Approved)
           \<lparr>approved_by := Some 11, approved_at := Some 1000, created_at := 1001, updated_at := 1001\<rparr>] \<and>
   clash ((booking_row 100 1 10 36000 43200 Approved)
           \<lparr>approved_by := Some 10, approved_at := Some 1000, created_at := 1001, updated_at := 1001\<rparr>)
         ((booking_row 101 1 11 39600 46800 Approved)
           \<lparr>approved_by := Some 11, approved_at := Some 1000, created_at := 1001, updated_at := 1001\<rparr>) \<and>
   \<not> no_double_booking (facility_bookings (store (run_events
       [Select 1 (env_at 100) resident_a (slot_request 1 ''10:00'' ''12:00''),
        Select 2 (env_at 101) resident_b (slot_request 1 ''11:00'' ''13:00''),
        Insert 1,
        Insert 2]
       \<lparr>store = db_with [], in_flight = []\<rparr>)))"
  by code_simp

lemma touching_no_slot_filter:
  "s < e \<Longrightarrow> a < b \<Longrightarrow> b \<le> s \<or> e \<le> a \<Longrightarrow> \<not> slot_filter s e a b"
  unfolding slot_filter_def by arith

lemma conflictingBookings_append:
  "conflictingBookings f d s e (rows @ rows2) =
     conflictingBookings f d s e rows @ conflictingBookings f d s e rows2"
  by (simp add: conflictingBookings_def)

lemma createBooking_success:
  assumes "createBooking env actor body db = (Inr r, db')"
  shows "\<exists>fac s e row.
     single (filter (\<lambda>f. f_id f = rq_facility_id body \<and> is_active f) (facilities db)) = (Some fac, None) \<and>
     \<not> js_string_lt (rq_start_time body) (time_out (operating_hours_start fac)) \<and>
     \<not> js_string_lt (time_out (operating_hours_end fac)) (rq_end_time body) \<and>
     time_in (rq_start_time body) = Some s \<and> time_in (rq_end_time body) = Some e \<and>
     conflictingBookings (rq_facility_id body) (rq_booking_date body) s e (facility_bookings db) = [] \<and>
     gen_random_uuid env \<notin> set (map b_id (facility_bookings db)) \<and>
     r = Some row \<and> db' = db\<lparr>facility_bookings := facility_bookings db @ [row]\<rparr> \<and>
     b_id row = gen_random_uuid env \<and> facility_id row = rq_facility_id body \<and>
     user_id row = u_id actor \<and> booking_date row = rq_booking_date body \<and>
     start_time row = s \<and> end_time row = e \<and>
     status row = (if requires_approval fac then Pending else Approved) \<and>
     purpose row = rq_purpose body \<and> notes row = rq_notes body \<and> admin_notes row = None \<and>
     approved_by row = (if requires_approval fac then None else Some (u_id actor)) \<and>
     approved_at row = (if requires_approval fac then None else Some (js_now env)) \<and>
     created_at row = db_now env \<and> updated_at row = db_now env"
  using assms unfolding createBooking_def
  by (auto simp: Let_def insert_single_def split: prod.splits option.splits if_splits)


lemma createBooking_after_disjoint_row:
  assumes c2: "createBooking env actor body db = (Inr (Some b2), db2)"
    and rows: "facility_bookings db1 = facility_bookings db @ [b1]" "facilities db1 = facilities db"
    and fresh: "gen_random_uuid env \<noteq> b_id b1"
    and times: "start_time b1 < end_time b1" "start_time b2 < end_time b2"
               "end_time b1 \<le> start_time b2 \<or> end_time b2 \<le> start_time b1"
  shows "createBooking env actor body db1 =
           (Inr (Some b2), db1\<lparr>facility_bookings := facility_bookings db1 @ [b2]\<rparr>)"
proof -
  from createBooking_success[OF c2] obtain fac s e where
    f: "single (filter (\<lambda>f. f_id f = rq_facility_id body \<and> is_active f) (facilities db)) = (Some fac, None)"
    and h: "\<not> js_string_lt (rq_start_time body) (time_out (operating_hours_start fac))"
           "\<not> js_string_lt (time_out (operating_hours_end fac)) (rq_end_time body)"
    and t: "time_in (rq_start_time body) = Some s" "time_in (rq_end_time body) = Some e"
    and c: "conflictingBookings (rq_facility_id body) (rq_booking_date body) s e (facility_bookings db) = []"
    and i: "gen_random_uuid env \<notin> set (map b_id (facility_bookings db))"
    and se: "start_time b2 = s" "end_time b2 = e"
    by auto
  have nf: "\<not> slot_filter s e (start_time b1) (end_time b1)"
    using touching_no_slot_filter[of s e "start_time b1" "end_time b1"] times se by auto
  have c1: "conflictingBookings (rq_facility_id body) (rq_booking_date body) s e (facility_bookings db1) = []"
    using c nf by (simp add: rows conflictingBookings_append) (simp add: conflictingBookings_def)
  have i1: "gen_random_uuid env \<notin> set (map b_id (facility_bookings db1))"
    using i fresh by (simp add: rows)
  from c2 show ?thesis
    unfolding createBooking_def
    by (simp add: f h t c c1 i i1 rows(2) Let_def insert_single_def del: set_map)
qed

text \<open>
C2.  For a requested slot and a stored slot that each start before they end, the
  three-part filter of the conflict query of \<open>createBooking\<close> says exactly that the two
  half-open intervals overlap.  Two slots that only touch, one ending when the other
  starts, pass the filter as free of conflict; so when two requests for such slots
  would each succeed on a database, the second still succeeds after the first has been
  stored, in either order of the two slots.
\<close>

theorem slot_filter_refines_overlap:
  "(s1 < e1 \<and> s2 < e2 \<longrightarrow> slot_filter s1 e1 s2 e2 = overlaps s1 e1 s2 e2) \<and>
   (s1 < e1 \<and> s2 < e2 \<and> (e2 \<le> s1 \<or> e1 \<le> s2) \<longrightarrow> \<not> slot_filter s1 e1 s2 e2) \<and>
   (createBooking env1 actor1 body1 db = (Inr (Some b1), db1) \<and>
    createBooking env2 actor2 body2 db = (Inr (Some b2), db2) \<and>
    gen_random_uuid env2 \<noteq> gen_random_uuid env1 \<and>
    start_time b1 < end_time b1 \<and> start_time b2 < end_time b2 \<and>
    (end_time b1 \<le> start_time b2 \<or> end_time b2 \<le> start_time b1) \<longrightarrow>
    createBooking env2 actor2 body2 db1 =
      (Inr (Some b2), db1\<lparr>facility_bookings := facility_bookings db1 @ [b2]\<rparr>))"
proof (intro conjI impI)
  assume "s1 < e1 \<and> s2 < e2"
  then show "slot_filter s1 e1 s2 e2 = overlaps s1 e1 s2 e2"
    unfolding slot_filter_def overlaps_def by arith
next
  assume "s1 < e1 \<and> s2 < e2 \<and> (e2 \<le> s1 \<or> e1 \<le> s2)"
  then show "\<not> slot_filter s1 e1 s2 e2"
    using touching_no_slot_filter[of s1 e1 s2 e2] by blast
next
  assume a: "createBooking env1 actor1 body1 db = (Inr (Some b1), db1) \<and>
    createBooking env2 actor2 body2 db = (Inr (Some b2), db2) \<and>
    gen_random_uuid env2 \<noteq> gen_random_uuid env1 \<and>
    start_time b1 < end_time b1 \<and> start_time b2 < end_time b2 \<and>
    (end_time b1 \<le> start_time b2 \<or> end_time b2 \<le> start_time b1)"
  from a createBooking_success[of env1 actor1 body1 db "Some b1" db1]
  have r: "facility_bookings db1 = facility_bookings db @ [b1]" "facilities db1 = facilities db"
     "b_id b1 = gen_random_uuid env1"
    by auto
  show "createBooking env2 actor2 body2 db1 =
      (Inr (Some b2), db1\<lparr>facility_bookings := facility_bookings db1 @ [b2]\<rparr>)"
    using createBooking_after_disjoint_row[of env2 actor2 body2 db b2 db2 db1 b1] a r by simp
qed

theorem slot_filter_refines_overlap_witness:
  "(36000::nat) < 43200 \<and> (43200::nat) < 46800 \<and> (43200::nat) \<le> 43200 \<and>
   slot_filter 43200 46800 36000 43200 = overlaps 43200 46800 36000 43200 \<and>
   \<not> slot_filter 43200 46800 36000 43200 \<and>
   createBooking (env_at 101) resident_b (slot_request 1 ''12:00'' ''13:00'')
     (snd (createBooking (env_at 100) resident_a (slot_request 1 ''10:00'' ''12:00'') (db_with []))) =
   (Inr (Some ((booking_row 101 1 11 43200 46800 Approved)
           \<lparr>approved_by := Some 11, approved_at := Some 1000, created_at := 1001, updated_at := 1001\<rparr>)),
    db_with [(booking_row 100 1 10 36000 43200 Approved)
           \<lparr>approved_by := Some 10, approved_at := Some 1000, created_at := 1001, updated_at := 1001\<rparr>,
         (booking_row 101 1 11 43200 46800 Approved)
           \<lparr>approved_by := Some 11, approved_at := Some 1000, created_at := 1001, updated_at := 1001\<rparr>])"
proof -
  let ?b1 = "(booking_row 100 1 10 36000 43200 Approved)
           \<lparr>approved_by := Some 10, approved_at := Some 1000, created_at := 1001, updated_at := 1001\<rparr>"
  let ?b2 = "(booking_row 101 1 11 43200 46800 Approved)
           \<lparr>approved_by := Some 11, approved_at := Some 1000, created_at := 1001, updated_at := 1001\<rparr>"
  have c1: "createBooking (env_at 100) resident_a (slot_request 1 ''10:00'' ''12:00'') (db_with []) =
      (Inr (Some ?b1), db_with [?b1])"
    by code_simp
  have c2: "createBooking (env_at 101) resident_b (slot_request 1 ''12:00'' ''13:00'') (db_with []) =
      (Inr (Some ?b2), db_with [?b2])"
    by code_simp
  have ids: "gen_random_uuid (env_at 101) \<noteq> gen_random_uuid (env_at 100)"
    by code_simp
  have t: "start_time ?b1 < end_time ?b1" "start_time ?b2 < end_time ?b2" "end_time ?b1 \<le> start_time ?b2"
    by code_simp+
  have e: "(db_with [?b1])\<lparr>facility_bookings := facility_bookings (db_with [?b1]) @ [?b2]\<rparr> = db_with [?b1, ?b2]"
    by code_simp
  have n: "(36000::nat) < 43200 \<and> (43200::nat) < 46800 \<and> (43200::nat) \<le> 43200"
    by simp
  note inst = slot_filter_refines_overlap[of 43200 46800 36000 43200 "env_at 100" resident_a
      "slot_request 1 ''10:00'' ''12:00''" "db_with []" ?b1 "db_with [?b1]" "env_at 101" resident_b
      "slot_request 1 ''12:00'' ''13:00''" ?b2 "db_with [?b2]"]
  from inst n have p1: "slot_filter 43200 46800 36000 43200 = overlaps 43200 46800 36000 43200"
    by blast
  from inst n have p2: "\<not> slot_filter 43200 46800 36000 43200"
    by blast
  from inst c1 c2 ids t have p3: "createBooking (env_at 101) resident_b (slot_request 1 ''12:00'' ''13:00'')
      (db_with [?b1]) = (Inr (Some ?b2), (db_with [?b1])\<lparr>facility_bookings := facility_bookings (db_with [?b1]) @ [?b2]\<rparr>)"
    by blast
  have s1: "snd (createBooking (env_at 100) resident_a (slot_request 1 ''10:00'' ''12:00'') (db_with [])) = db_with [?b1]"
    by (simp only: c1 snd_conv)
  from n p1 p2 p3 show ?thesis
    by (simp only: s1 e) simp
qed

section \<open>Comparing time texts\<close>

lemma char_eq_digits:
  assumes "of_char x = 48 + a" "of_char y = 48 + (b::nat)"
  shows "(x = y) = (a = b)"
proof
  assume "x = y"
  with assms show "a = b" by simp
next
  assume "a = b"
  with assms have "(of_char x :: nat) = of_char y" by simp
  then show "x = y" by (simp only: of_char_eq_iff)
qed

lemma lex4_less:
  fixes a1 a2 a3 a4 b1 b2 b3 b4 :: nat
  assumes "a2 < 10" "b2 < 10" "a3 < 6" "b3 < 6" "a4 < 10" "b4 < 10"
  shows "(a1 < b1 \<or> a1 = b1 \<and> (a2 < b2 \<or> a2 = b2 \<and> (a3 < b3 \<or> a3 = b3 \<and> a4 < b4))) =
         ((a1 * 10 + a2) * 60 + (a3 * 10 + a4) < (b1 * 10 + b2) * 60 + (b3 * 10 + b4))"
  using assms by auto

lemma lex4_le:
  fixes a1 a2 a3 a4 b1 b2 b3 b4 :: nat
  assumes "a2 < 10" "b2 < 10" "a3 < 6" "b3 < 6" "a4 < 10" "b4 < 10"
  shows "(a1 < b1 \<or> a1 = b1 \<and> (a2 < b2 \<or> a2 = b2 \<and> (a3 < b3 \<or> a3 = b3 \<and> (a4 < b4 \<or> a4 = b4)))) =
         ((a1 * 10 + a2) * 60 + (a3 * 10 + a4) \<le> (b1 * 10 + b2) * 60 + (b3 * 10 + b4))"
  using assms by auto

lemma js_string_lt_minutes_prefix:
  fixes a1 a2 a3 a4 b1 b2 b3 b4 :: nat
  assumes x: "of_char x1 = 48 + a1" "of_char x2 = 48 + a2" "of_char x3 = 48 + a3" "of_char x4 = 48 + a4"
    and y: "of_char y1 = 48 + b1" "of_char y2 = 48 + b2" "of_char y3 = 48 + b3" "of_char y4 = 48 + b4"
    and bounds: "a2 < 10" "b2 < 10" "a3 < 6" "b3 < 6" "a4 < 10" "b4 < 10"
  shows "js_string_lt [x1, x2, c, x3, x4] (y1 # y2 # c # y3 # y4 # r # rs) =
           ((a1 * 10 + a2) * 60 + (a3 * 10 + a4) \<le> (b1 * 10 + b2) * 60 + (b3 * 10 + b4))"
    and "js_string_lt (y1 # y2 # c # y3 # y4 # r # rs) [x1, x2, c, x3, x4] =
           ((b1 * 10 + b2) * 60 + (b3 * 10 + b4) < (a1 * 10 + a2) * 60 + (a3 * 10 + a4))"
proof -
  have e: "(x1 = y1) = (a1 = b1)" "(x2 = y2) = (a2 = b2)" "(x3 = y3) = (a3 = b3)" "(x4 = y4) = (a4 = b4)"
          "(y1 = x1) = (b1 = a1)" "(y2 = x2) = (b2 = a2)" "(y3 = x3) = (b3 = a3)" "(y4 = x4) = (b4 = a4)"
    using x y by (simp_all only: char_eq_digits[of _ a1 _ b1] char_eq_digits[of _ a2 _ b2]
         char_eq_digits[of _ a3 _ b3] char_eq_digits[of _ a4 _ b4]
         char_eq_digits[of _ b1 _ a1] char_eq_digits[of _ b2 _ a2]
         char_eq_digits[of _ b3 _ a3] char_eq_digits[of _ b4 _ a4])
  show "js_string_lt [x1, x2, c, x3, x4] (y1 # y2 # c # y3 # y4 # r # rs) =
           ((a1 * 10 + a2) * 60 + (a3 * 10 + a4) \<le> (b1 * 10 + b2) * 60 + (b3 * 10 + b4))"
    unfolding lex4_le[OF bounds, symmetric]
    by (simp add: x y e)
  show "js_string_lt (y1 # y2 # c # y3 # y4 # r # rs) [x1, x2, c, x3, x4] =
           ((b1 * 10 + b2) * 60 + (b3 * 10 + b4) < (a1 * 10 + a2) * 60 + (a3 * 10 + a4))"
    unfolding lex4_less[OF bounds(2) bounds(1) bounds(4) bounds(3) bounds(6) bounds(5), symmetric]
    by (simp add: x y e)
qed

lemma is_digit_code: "is_digit c \<Longrightarrow> of_char c = 48 + digit_val c \<and> digit_val c < 10"
  unfolding is_digit_def digit_val_def by auto

lemma digit_char_code: "of_char (digit_char n) = (48 + n mod 10 :: nat)"
  unfolding digit_char_def by simp

lemma time_out_chars:
  "time_out t = digit_char (t div 3600 div 10) # digit_char (t div 3600) # CHR '':'' #
                digit_char (t div 60 mod 60 div 10) # digit_char (t div 60 mod 60) # CHR '':'' #
                two_digits (t mod 60)"
  by (simp add: time_out_def two_digits_def)

lemma time_pattern_5:
  assumes "time_pattern s" "length s = 5"
  obtains h1 h2 m1 m2 where "s = [h1, h2, CHR '':'', m1, m2]"
    "is_digit h1" "is_digit h2" "is_digit m1" "is_digit m2" "digit_val m1 < 6"
proof -
  from assms(2) obtain h1 h2 c m1 m2 where s: "s = [h1, h2, c, m1, m2]"
    by (auto simp: length_Suc_conv eval_nat_numeral)
  with assms(1) show ?thesis
    by (intro that[of h1 h2 m1 m2]) auto
qed


lemma time_in_5:
  assumes "time_pattern [h1, h2, c, m1, m2]"
  shows "time_in [h1, h2, c, m1, m2] =
           Some (((digit_val h1 * 10 + digit_val h2) * 60 + (digit_val m1 * 10 + digit_val m2)) * 60)"
  using assms by simp

lemma minutes_of_time:
  "t div 60 = (t div 3600 div 10 * 10 + t div 3600 mod 10) * 60 +
              (t div 60 mod 60 div 10 * 10 + t div 60 mod 60 mod 10)" for t :: nat
proof -
  have "t div 3600 = t div 60 div 60" by (simp add: div_mult2_eq)
  then show ?thesis by simp
qed

lemma padded_time_vs_store_time:
  assumes p: "time_pattern s" "length s = 5" and ts: "time_in s = Some ts" and t: "t \<le> 86400"
  shows "js_string_lt s (time_out t) = (ts \<le> t)"
    and "js_string_lt (time_out t) s = (t < ts)"
proof -
  from p obtain h1 h2 m1 m2 where s: "s = [h1, h2, CHR '':'', m1, m2]"
    and d: "is_digit h1" "is_digit h2" "is_digit m1" "is_digit m2" and m6: "digit_val m1 < 6"
    by (rule time_pattern_5)
  let ?A = "(digit_val h1 * 10 + digit_val h2) * 60 + (digit_val m1 * 10 + digit_val m2)"
  from p(1) ts have tsv: "ts = ?A * 60"
    unfolding s by (simp only: time_in_5) simp
  have h24: "t div 3600 \<le> 24" using t by simp
  have y1: "of_char (digit_char (t div 3600 div 10)) = (48 + t div 3600 div 10 :: nat)"
    using h24 by (simp add: digit_char_code)
  have y2: "of_char (digit_char (t div 3600)) = (48 + t div 3600 mod 10 :: nat)"
    by (simp add: digit_char_code)
  have y3: "of_char (digit_char (t div 60 mod 60 div 10)) = (48 + t div 60 mod 60 div 10 :: nat)"
    by (simp add: digit_char_code)
  have y4: "of_char (digit_char (t div 60 mod 60)) = (48 + t div 60 mod 60 mod 10 :: nat)"
    by (simp add: digit_char_code)
  have b: "digit_val h2 < 10" "t div 3600 mod 10 < 10" "digit_val m1 < 6" "t div 60 mod 60 div 10 < 6"
          "digit_val m2 < 10" "t div 60 mod 60 mod 10 < 10"
    using d m6 is_digit_code by simp_all
  note cmp = js_string_lt_minutes_prefix[of h1 "digit_val h1" h2 "digit_val h2" m1 "digit_val m1"
      m2 "digit_val m2" _ "t div 3600 div 10" _ "t div 3600 mod 10" _ "t div 60 mod 60 div 10"
      _ "t div 60 mod 60 mod 10", OF _ _ _ _ y1 y2 y3 y4 b]
  have x: "of_char h1 = 48 + digit_val h1" "of_char h2 = 48 + digit_val h2"
          "of_char m1 = 48 + digit_val m1" "of_char m2 = 48 + digit_val m2"
    using d is_digit_code by simp_all
  have le: "js_string_lt s (time_out t) = (?A \<le> t div 60)"
    unfolding s time_out_chars two_digits_def
    by (simp only: cmp(1)[OF x] minutes_of_time[of t, symmetric])
  have lt: "js_string_lt (time_out t) s = (t div 60 < ?A)"
    unfolding s time_out_chars two_digits_def
    by (simp only: cmp(2)[OF x] minutes_of_time[of t, symmetric])
  show "js_string_lt s (time_out t) = (ts \<le> t)"
    unfolding le tsv by (simp add: less_eq_div_iff_mult_less_eq)
  show "js_string_lt (time_out t) s = (t < ts)"
    unfolding lt tsv by (simp add: div_less_iff_less_mult)
qed


section \<open>The operating hours check\<close>

lemma filter_by_key:
  assumes "distinct (map k xs)" "x \<in> set xs" "k x = i" "P x"
  shows "filter (\<lambda>y. k y = i \<and> P y) xs = [x]"
  using assms
proof (induction xs)
  case Nil
  then show ?case by simp
next
  case (Cons y ys)
  show ?case
  proof (cases "y = x")
    case True
    with Cons.prems have "\<forall>z \<in> set ys. k z \<noteq> i" by (auto simp: image_iff)
    then have "filter (\<lambda>y. k y = i \<and> P y) ys = []" by (simp add: filter_empty_conv)
    with True Cons.prems show ?thesis by simp
  next
    case False
    with Cons.prems have "x \<in> set ys" "k y \<noteq> i" "distinct (map k ys)" by auto
    with Cons.IH Cons.prems show ?thesis by simp
  qed
qed

lemma active_facility_lookup:
  assumes "distinct (map f_id (facilities db))" "fac \<in> set (facilities db)"
    "f_id fac = i" "is_active fac"
  shows "single (filter (\<lambda>f. f_id f = i \<and> is_active f) (facilities db)) = (Some fac, None)"
  using filter_by_key[of f_id "facilities db" fac i is_active] assms by (simp add: single_def)

lemma createBooking_hours_check:
  assumes "single (filter (\<lambda>f. f_id f = rq_facility_id body \<and> is_active f) (facilities db)) = (Some fac, None)"
  shows "(fst (createBooking env actor body db) = Inl InvalidTimeRange) =
           (js_string_lt (rq_start_time body) (time_out (operating_hours_start fac)) \<or>
            js_string_lt (time_out (operating_hours_end fac)) (rq_end_time body))"
    and "js_string_lt (rq_start_time body) (time_out (operating_hours_start fac)) \<or>
         js_string_lt (time_out (operating_hours_end fac)) (rq_end_time body) \<Longrightarrow>
         createBooking env actor body db = (Inl InvalidTimeRange, db)"
  using assms unfolding createBooking_def
  by (auto simp: Let_def insert_single_def split: prod.splits option.splits if_splits)

text \<open>
C3, as amended.  \<open>createBooking\<close> has no check that the start is before the end.  For
  a request against an existing active facility whose two times are written with two
  hour digits (\<open>HH:MM\<close>) and whose start is not the opening time itself, the call
  fails with \<open>InvalidTimeRange\<close> (status 400) exactly when the start is before the
  opening time or the end is after the closing time.  The failure is decided before
  the conflict query, whatever bookings the table holds, and leaves the database as it
  was.
\<close>

theorem createBooking_outside_operating_hours:
  assumes "distinct (map f_id (facilities db))" "fac \<in> set (facilities db)"
    and "f_id fac = rq_facility_id body" "is_active fac"
    and "operating_hours_start fac \<le> 86400" "operating_hours_end fac \<le> 86400"
    and "time_pattern (rq_start_time body)" "length (rq_start_time body) = 5"
    and "time_pattern (rq_end_time body)" "length (rq_end_time body) = 5"
    and "time_in (rq_start_time body) = Some s" "time_in (rq_end_time body) = Some e"
    and "s \<noteq> operating_hours_start fac"
  shows "((fst (createBooking env actor body db) = Inl InvalidTimeRange) =
            (s < operating_hours_start fac \<or> operating_hours_end fac < e)) \<and>
         (s < operating_hours_start fac \<or> operating_hours_end fac < e \<longrightarrow>
            createBooking env actor body db = (Inl InvalidTimeRange, db)) \<and>
         http_status InvalidTimeRange = 400"
proof -
  have f: "single (filter (\<lambda>f. f_id f = rq_facility_id body \<and> is_active f) (facilities db)) = (Some fac, None)"
    using assms(1-4) by (rule active_facility_lookup)
  have a: "js_string_lt (rq_start_time body) (time_out (operating_hours_start fac)) =
             (s < operating_hours_start fac)"
    using padded_time_vs_store_time(1)[OF assms(7) assms(8) assms(11) assms(5)] assms(13) by auto
  have b: "js_string_lt (time_out (operating_hours_end fac)) (rq_end_time body) =
             (operating_hours_end fac < e)"
    using padded_time_vs_store_time(2)[OF assms(9) assms(10) assms(12) assms(6)] .
  show ?thesis
    using createBooking_hours_check[OF f, of env actor] by (simp add: a b)
qed

theorem createBooking_outside_operating_hours_witness:
  "distinct (map f_id (facilities (db_with [booking_row 100 1 10 36000 43200 Approved]))) \<and>
   facility_x \<in> set (facilities (db_with [booking_row 100 1 10 36000 43200 Approved])) \<and>
   f_id facility_x = rq_facility_id (slot_request 1 ''07:00'' ''11:00'') \<and> is_active facility_x \<and>
   operating_hours_start facility_x \<le> 86400 \<and> operating_hours_end facility_x \<le> 86400 \<and>
   time_pattern ''07:00'' \<and> length ''07:00'' = 5 \<and> time_pattern ''11:00'' \<and> length ''11:00'' = 5 \<and>
   time_in ''07:00'' = Some 25200 \<and> time_in ''11:00'' = Some 39600 \<and>
   25200 \<noteq> operating_hours_start facility_x \<and> 25200 < operating_hours_start facility_x \<and>
   conflictingBookings 1 20000 25200 39600
       (facility_bookings (db_with [booking_row 100 1 10 36000 43200 Approved])) =
     [booking_row 100 1 10 36000 43200 Approved] \<and>
   createBooking (env_at 101) resident_b (slot_request 1 ''07:00'' ''11:00'')
       (db_with [booking_row 100 1 10 36000 43200 Approved]) =
     (Inl InvalidTimeRange, db_with [booking_row 100 1 10 36000 43200 Approved])"
proof -
  let ?db = "db_with [booking_row 100 1 10 36000 43200 Approved]"
  let ?rq = "slot_request 1 ''07:00'' ''11:00''"
  have h1: "distinct (map f_id (facilities ?db))" by code_simp
  have h2: "facility_x \<in> set (facilities ?db)" by code_simp
  have h3: "f_id facility_x = rq_facility_id ?rq" by code_simp
  have h4: "is_active facility_x" by code_simp
  have h5: "operating_hours_start facility_x \<le> 86400" by code_simp
  have h6: "operating_hours_end facility_x \<le> 86400" by code_simp
  have h7: "time_pattern (rq_start_time ?rq)" by code_simp
  have h8: "length (rq_start_time ?rq) = 5" by code_simp
  have h9: "time_pattern (rq_end_time ?rq)" by code_simp
  have h10: "length (rq_end_time ?rq) = 5" by code_simp
  have h11: "time_in (rq_start_time ?rq) = Some 25200" by code_simp
  have h12: "time_in (rq_end_time ?rq) = Some 39600" by code_simp
  have h13: "25200 \<noteq> operating_hours_start facility_x" by code_simp
  have lt: "25200 < operating_hours_start facility_x" by code_simp
  have cf: "conflictingBookings 1 20000 25200 39600 (facility_bookings ?db) =
      [booking_row 100 1 10 36000 43200 Approved]" by code_simp
  have r: "rq_start_time ?rq = ''07:00''" "rq_end_time ?rq = ''11:00''" by code_simp+
  from createBooking_outside_operating_hours[OF h1 h2 h3 h4 h5 h6 h7 h8 h9 h10 h11 h12 h13,
      of "env_at 101" resident_b] lt
  have c: "createBooking (env_at 101) resident_b ?rq ?db = (Inl InvalidTimeRange, ?db)"
    by blast
  from h1 h2 h3 h4 h5 h6 h7 h8 h9 h10 h11 h12 h13 lt cf c show ?thesis
    unfolding r by blast
qed

text \<open>
  C3 as stated fails: a request from 12:00 to 10:00 inside the operating hours of the
  first facility, on an empty table, is answered with a new approved booking whose
  start is after its end.
\<close>

theorem createBooking_start_after_end_counterexample:
  "time_in ''12:00'' = Some 43200 \<and> time_in ''10:00'' = Some 36000 \<and> (36000::nat) \<le> 43200 \<and>
   operating_hours_start facility_x \<le> 43200 \<and> 36000 \<le> operating_hours_end facility_x \<and>
   createBooking (env_at 100) resident_a (slot_request 1 ''12:00'' ''10:00'') (db_with []) =
     (Inr (Some ((booking_row 100 1 10 43200 36000 Approved)
           \<lparr>approved_by := Some 10, approved_at := Some 1000, created_at := 1001, updated_at := 1001\<rparr>)),
      db_with [(booking_row 100 1 10 43200 36000 Approved)
           \<lparr>approved_by := Some 10, approved_at := Some 1000, created_at := 1001, updated_at := 1001\<rparr>])"
  by code_simp

text \<open>
  The inputs that the amended statement leaves out.  The comparison is made on the
  texts, so a start at the opening time is refused (\<open>08:00\<close> is a proper prefix of
  \<open>08:00:00\<close>), and a time written with one hour digit is compared by its first
  character: 8:30 to 9:30 is refused inside the operating hours, and 7:00 to 10:00 is
  accepted although the facility opens at 08:00.
\<close>

lemma createBooking_start_at_opening:
  "createBooking (env_at 100) resident_a (slot_request 1 ''08:00'' ''09:00'') (db_with []) =
     (Inl InvalidTimeRange, db_with [])"
  by code_simp

lemma createBooking_one_hour_digit_inside_hours:
  "createBooking (env_at 100) resident_a (slot_request 1 ''8:30'' ''9:30'') (db_with []) =
     (Inl InvalidTimeRange, db_with [])"
  by code_simp

lemma createBooking_one_hour_digit_before_opening:
  "time_in ''7:00'' = Some 25200 \<and> 25200 < operating_hours_start facility_x \<and>
   createBooking (env_at 100) resident_a (slot_request 1 ''7:00'' ''10:00'') (db_with []) =
     (Inr (Some ((booking_row 100 1 10 25200 36000 Approved)
           \<lparr>approved_by := Some 10, approved_at := Some 1000, created_at := 1001, updated_at := 1001\<rparr>)),
      db_with [(booking_row 100 1 10 25200 36000 Approved)
           \<lparr>approved_by := Some 10, approved_at := Some 1000, created_at := 1001, updated_at := 1001\<rparr>])"
  by code_simp

section \<open>Approval and the life of a booking\<close>

lemma approveBooking_without_pending_row:
  assumes "role actor = Admin"
    and "\<forall>b \<in> set (facility_bookings db). b_id b = ident \<longrightarrow> status b \<noteq> Pending"
  shows "approveBooking env actor ident body db = (Inl UpdateStatusFailed, db)"
proof -
  have "filter (\<lambda>b. b_id b = ident \<and> status b = Pending) (facility_bookings db) = []"
    using assms(2) by (auto simp: filter_empty_conv)
  then show ?thesis
    using assms(1) by (simp add: approveBooking_def update_single_def)
qed

lemma approveBooking_pending_row:
  assumes "role actor = Admin" "primary_key (facility_bookings db)"
    and "b \<in> set (facility_bookings db)" "b_id b = ident" "status b = Pending"
  shows "fst (approveBooking env actor ident body db) =
           Inr (Some (b\<lparr> status := decision_status (ap_status body),
                          admin_notes := (case ap_admin_notes body of None \<Rightarrow> admin_notes b | Some n \<Rightarrow> Some n),
                          approved_by := Some (u_id actor),
                          approved_at := Some (js_now env),
                          updated_at := db_now env \<rparr>))"
proof -
  have "filter (\<lambda>r. b_id r = ident \<and> status r = Pending) (facility_bookings db) = [b]"
    using filter_by_key[of b_id "facility_bookings db" b ident "\<lambda>r. status r = Pending"] assms
    by (simp add: primary_key_def)
  then show ?thesis
    using assms(1) by (simp add: approveBooking_def update_single_def)
qed

text \<open>
C4.  The code as it runs, at the inputs where it departs from the claim: when an
  administrator calls \<open>approveBooking\<close> for an identifier that has no pending row (no
  such booking, or a booking already decided or cancelled), the conditional update
  selects no row, \<open>.single()\<close> reports that as an error, and the handler answers
  \<open>Failed to update booking status\<close> with status 500, leaving the database as it was.
  The branch that answers 404 (\<open>Booking not found or not pending approval\<close>) is never
  taken.
\<close>

theorem approveBooking_not_pending_is_500:
  assumes "role actor = Admin"
    and "\<forall>b \<in> set (facility_bookings db). b_id b = ident \<longrightarrow> status b \<noteq> Pending"
  shows "approveBooking env actor ident body db = (Inl UpdateStatusFailed, db) \<and>
         http_status UpdateStatusFailed = 500 \<and>
         fst (approveBooking env actor ident body db) \<noteq> Inl BookingNotPending"
  using approveBooking_without_pending_row[OF assms] by simp

theorem approveBooking_not_pending_is_500_witness:
  "role admin_c = Admin \<and>
   map status (facility_bookings (db_with [booking_row 103 2 10 36000 43200 Approved])) = [Approved] \<and>
   approveBooking (env_at 0) admin_c 103 approve_request (db_with [booking_row 103 2 10 36000 43200 Approved]) =
     (Inl UpdateStatusFailed, db_with [booking_row 103 2 10 36000 43200 Approved]) \<and>
   approveBooking (env_at 0) admin_c 104 approve_request (db_with [booking_row 103 2 10 36000 43200 Approved]) =
     (Inl UpdateStatusFailed, db_with [booking_row 103 2 10 36000 43200 Approved]) \<and>
   http_status UpdateStatusFailed = 500"
proof -
  let ?db = "db_with [booking_row 103 2 10 36000 43200 Approved]"
  have a: "role admin_c = Admin" by code_simp
  have s: "map status (facility_bookings ?db) = [Approved]" by code_simp
  have n3: "\<forall>b \<in> set (facility_bookings ?db). b_id b = 103 \<longrightarrow> status b \<noteq> Pending" by code_simp
  have n4: "\<forall>b \<in> set (facility_bookings ?db). b_id b = 104 \<longrightarrow> status b \<noteq> Pending" by code_simp
  from approveBooking_not_pending_is_500[OF a n3, of "env_at 0" approve_request]
       approveBooking_not_pending_is_500[OF a n4, of "env_at 0" approve_request] a s
  show ?thesis by blast
qed

lemma later_status_refl: "later_status s s"
  by (cases s) simp_all

lemma later_status_trans: "later_status a b \<Longrightarrow> later_status b c \<Longrightarrow> later_status a c"
  by (cases a; cases b; cases c; simp)

lemma perform_rows:
  assumes "i < length (facility_bookings db)"
  shows "i < length (facility_bookings (perform op db)) \<and>
         b_id (facility_bookings (perform op db) ! i) = b_id (facility_bookings db ! i) \<and>
         later_status (status (facility_bookings db ! i)) (status (facility_bookings (perform op db) ! i))"
proof (cases op)
  case (CreateBooking env actor body)
  obtain resp db' where r: "createBooking env actor body db = (resp, db')"
    by (cases "createBooking env actor body db")
  from createBooking_rows[OF r] assms CreateBooking r show ?thesis
    by (auto simp: nth_append later_status_refl)
next
  case (ApproveOrReject env actor ident body)
  obtain resp db' where r: "approveBooking env actor ident body db = (resp, db')"
    by (cases "approveBooking env actor ident body db")
  from approveBooking_rows[OF r] assms ApproveOrReject r show ?thesis
    by (auto simp: later_status_refl)
next
  case (CancelBooking env actor ident)
  obtain resp db' where r: "cancelBooking env actor ident db = (resp, db')"
    by (cases "cancelBooking env actor ident db")
  from cancelBooking_rows[OF r] assms CancelBooking r show ?thesis
    by (cases "status (facility_bookings db ! i)") (auto simp: later_status_refl)
qed

lemma perform_all_rows:
  assumes "i < length (facility_bookings db)"
  shows "i < length (facility_bookings (perform_all ops db)) \<and>
         b_id (facility_bookings (perform_all ops db) ! i) = b_id (facility_bookings db ! i) \<and>
         later_status (status (facility_bookings db ! i)) (status (facility_bookings (perform_all ops db) ! i))"
  using assms
proof (induction ops arbitrary: db)
  case Nil
  then show ?case by (simp add: later_status_refl)
next
  case (Cons op ops)
  from perform_rows[OF Cons.prems, of op] have
    l: "i < length (facility_bookings (perform op db))"
    and k: "b_id (facility_bookings (perform op db) ! i) = b_id (facility_bookings db ! i)"
    and s: "later_status (status (facility_bookings db ! i)) (status (facility_bookings (perform op db) ! i))"
    by simp_all
  from Cons.IH[OF l] k s show ?case
    by (auto intro: later_status_trans)
qed

lemma rejected_row_kept_by_create_and_approve:
  assumes "i < length (facility_bookings db)" "status (facility_bookings db ! i) = Rejected"
  shows "status (facility_bookings (perform (CreateBooking env actor body) db) ! i) = Rejected"
    and "status (facility_bookings (perform (ApproveOrReject env actor ident abody) db) ! i) = Rejected"
proof -
  obtain resp db' where r: "createBooking env actor body db = (resp, db')"
    by (cases "createBooking env actor body db")
  from createBooking_rows[OF r] assms r
  show "status (facility_bookings (perform (CreateBooking env actor body) db) ! i) = Rejected"
    by (auto simp: nth_append)
  obtain resp2 db2 where r2: "approveBooking env actor ident abody db = (resp2, db2)"
    by (cases "approveBooking env actor ident abody db")
  from approveBooking_rows[OF r2] assms r2
  show "status (facility_bookings (perform (ApproveOrReject env actor ident abody) db) ! i) = Rejected"
    by auto
qed

text \<open>
  C5, as amended.  Through any sequence of \<open>createBooking\<close>, \<open>approveBooking\<close> and
  \<open>cancelBooking\<close> calls a stored row keeps its place and its identifier, and: a
  cancelled row stays cancelled; a rejected row stays rejected or becomes cancelled,
  and neither \<open>createBooking\<close> nor \<open>approveBooking\<close> changes its status; a row that is not
  pending never becomes pending.
\<close>

theorem cancelled_is_terminal:
  assumes "i < length (facility_bookings db)"
  shows "i < length (facility_bookings (perform_all ops db)) \<and>
         b_id (facility_bookings (perform_all ops db) ! i) = b_id (facility_bookings db ! i) \<and>
         (status (facility_bookings db ! i) = Cancelled \<longrightarrow>
            status (facility_bookings (perform_all ops db) ! i) = Cancelled) \<and>
         (status (facility_bookings db ! i) = Rejected \<longrightarrow>
            (status (facility_bookings (perform_all ops db) ! i) = Rejected \<or>
             status (facility_bookings (perform_all ops db) ! i) = Cancelled) \<and>
            status (facility_bookings (perform (CreateBooking env actor body) db) ! i) = Rejected \<and>
            status (facility_bookings (perform (ApproveOrReject env actor ident abody) db) ! i) = Rejected) \<and>
         (status (facility_bookings db ! i) \<noteq> Pending \<longrightarrow>
            status (facility_bookings (perform_all ops db) ! i) \<noteq> Pending)"
proof -
  from perform_all_rows[OF assms, of ops] have
    l: "i < length (facility_bookings (perform_all ops db))"
    and k: "b_id (facility_bookings (perform_all ops db) ! i) = b_id (facility_bookings db ! i)"
    and s: "later_status (status (facility_bookings db ! i)) (status (facility_bookings (perform_all ops db) ! i))"
    by simp_all
  from s have
    "status (facility_bookings db ! i) = Cancelled \<longrightarrow>
       status (facility_bookings (perform_all ops db) ! i) = Cancelled"
    "status (facility_bookings db ! i) = Rejected \<longrightarrow>
       (status (facility_bookings (perform_all ops db) ! i) = Rejected \<or>
        status (facility_bookings (perform_all ops db) ! i) = Cancelled)"
    "status (facility_bookings db ! i) \<noteq> Pending \<longrightarrow>
       status (facility_bookings (perform_all ops db) ! i) \<noteq> Pending"
    by (cases "status (facility_bookings db ! i)"; auto)+
  with l k rejected_row_kept_by_create_and_approve[OF assms]
  show ?thesis by blast
qed


theorem cancelled_is_terminal_witness:
  "0 < length (facility_bookings (db_with [booking_row 100 1 10 36000 43200 Cancelled,
                                            booking_row 101 1 11 36000 43200 Rejected])) \<and>
   status (facility_bookings (db_with [booking_row 100 1 10 36000 43200 Cancelled,
                                        booking_row 101 1 11 36000 43200 Rejected]) ! 0) = Cancelled \<and>
   status (facility_bookings (perform_all
       [ApproveOrReject (env_at 0) admin_c 100 approve_request,
        CancelBooking (env_at 0) resident_a 100,
        CreateBooking (env_at 105) resident_a (slot_request 1 ''10:00'' ''12:00'')]
       (db_with [booking_row 100 1 10 36000 43200 Cancelled,
                 booking_row 101 1 11 36000 43200 Rejected])) ! 0) = Cancelled \<and>
   1 < length (facility_bookings (db_with [booking_row 100 1 10 36000 43200 Cancelled,
                                            booking_row 101 1 11 36000 43200 Rejected])) \<and>
   status (facility_bookings (db_with [booking_row 100 1 10 36000 43200 Cancelled,
                                        booking_row 101 1 11 36000 43200 Rejected]) ! 1) = Rejected \<and>
   status (facility_bookings (perform (ApproveOrReject (env_at 0) admin_c 101 approve_request)
       (db_with [booking_row 100 1 10 36000 43200 Cancelled,
                 booking_row 101 1 11 36000 43200 Rejected])) ! 1) = Rejected \<and>
   status (facility_bookings (perform_all
       [ApproveOrReject (env_at 0) admin_c 100 approve_request,
        CancelBooking (env_at 0) resident_a 100,
        CreateBooking (env_at 105) resident_a (slot_request 1 ''10:00'' ''12:00'')]
       (db_with [booking_row 100 1 10 36000 43200 Cancelled,
                 booking_row 101 1 11 36000 43200 Rejected])) ! 1) \<noteq> Pending"
proof -
  let ?db = "db_with [booking_row 100 1 10 36000 43200 Cancelled,
                      booking_row 101 1 11 36000 43200 Rejected]"
  let ?ops = "[ApproveOrReject (env_at 0) admin_c 100 approve_request,
        CancelBooking (env_at 0) resident_a 100,
        CreateBooking (env_at 105) resident_a (slot_request 1 ''10:00'' ''12:00'')]"
  have l0: "0 < length (facility_bookings ?db)" by code_simp
  have l1: "1 < length (facility_bookings ?db)" by code_simp
  have s0: "status (facility_bookings ?db ! 0) = Cancelled" by code_simp
  have s1: "status (facility_bookings ?db ! 1) = Rejected" by code_simp
  from cancelled_is_terminal[OF l0, of ?ops] s0
  have c0: "status (facility_bookings (perform_all ?ops ?db) ! 0) = Cancelled"
    by blast
  from cancelled_is_terminal[OF l1, of ?ops _ _ _ 101 approve_request] s1
  have c1: "status (facility_bookings (perform (ApproveOrReject (env_at 0) admin_c 101 approve_request) ?db) ! 1) = Rejected"
    by blast
  from cancelled_is_terminal[OF l1, of ?ops] s1
  have c2: "status (facility_bookings (perform_all ?ops ?db) ! 1) \<noteq> Pending"
    by simp
  from l0 l1 s0 s1 c0 c1 c2 show ?thesis by blast
qed

text \<open>
  C5 as stated fails: the owner of a rejected booking that lies in the future cancels
  it, and the status of the row changes from rejected to cancelled.
\<close>

theorem rejected_then_cancelled_counterexample:
  "status (booking_row 101 1 11 36000 43200 Rejected) = Rejected \<and>
   cancelBooking (env_at 0) resident_b 101 (db_with [booking_row 101 1 11 36000 43200 Rejected]) =
     (Inr (Some ((booking_row 101 1 11 36000 43200 Cancelled)\<lparr>updated_at := 1001\<rparr>)),
      db_with [(booking_row 101 1 11 36000 43200 Cancelled)\<lparr>updated_at := 1001\<rparr>])"
  by code_simp

section \<open>The status of a new booking\<close>

lemma single_one: "single xs = (Some x, None) \<Longrightarrow> xs = [x]"
  by (auto simp: single_def split: list.splits)

text \<open>
  C6, as amended.  A successful \<open>createBooking\<close> answers with the row it appended to the
  table.  When the facility requires approval the row is pending and \<open>approved_by\<close> and
  \<open>approved_at\<close> are empty; otherwise the row is approved, \<open>approved_by\<close> is the identifier
  of the requesting user and \<open>approved_at\<close> is the instant the handler read from its own
  clock while creating the booking.  The creation timestamp of the row, \<open>created_at\<close>, is
  the instant of the store's clock in either case.
\<close>

theorem createBooking_initial_status:
  assumes "createBooking env actor body db = (Inr r, db')"
    and "fac \<in> set (facilities db)" "f_id fac = rq_facility_id body" "is_active fac"
  shows "\<exists>b. r = Some b \<and> facility_bookings db' = facility_bookings db @ [b] \<and>
           (if requires_approval fac
            then status b = Pending \<and> approved_by b = None \<and> approved_at b = None
            else status b = Approved \<and> approved_by b = Some (u_id actor) \<and>
                 approved_at b = Some (js_now env)) \<and>
           created_at b = db_now env"
proof -
  from createBooking_success[OF assms(1)] obtain fac' row where
    f: "single (filter (\<lambda>f. f_id f = rq_facility_id body \<and> is_active f) (facilities db)) = (Some fac', None)"
    and r: "r = Some row" "db' = db\<lparr>facility_bookings := facility_bookings db @ [row]\<rparr>"
    and st: "status row = (if requires_approval fac' then Pending else Approved)"
            "approved_by row = (if requires_approval fac' then None else Some (u_id actor))"
            "approved_at row = (if requires_approval fac' then None else Some (js_now env))"
            "created_at row = db_now env"
    by blast
  from assms(2-4) have "fac \<in> set (filter (\<lambda>f. f_id f = rq_facility_id body \<and> is_active f) (facilities db))"
    by simp
  then have "fac \<in> set [fac']"
    by (simp only: single_one[OF f])
  then have "fac' = fac" by simp
  with r st show ?thesis by simp
qed

theorem createBooking_initial_status_witness:
  "facility_x \<in> set (facilities (db_with [])) \<and> f_id facility_x = rq_facility_id (slot_request 1 ''10:00'' ''12:00'') \<and>
   is_active facility_x \<and> \<not> requires_approval facility_x \<and>
   facility_y \<in> set (facilities (db_with [])) \<and> f_id facility_y = rq_facility_id (slot_request 2 ''10:00'' ''12:00'') \<and>
   is_active facility_y \<and> requires_approval facility_y \<and>
   createBooking (env_at 100) resident_a (slot_request 1 ''10:00'' ''12:00'') (db_with []) =
     (Inr (Some ((booking_row 100 1 10 36000 43200 Approved)
           \<lparr>approved_by := Some 10, approved_at := Some 1000, created_at := 1001, updated_at := 1001\<rparr>)),
      db_with [(booking_row 100 1 10 36000 43200 Approved)
           \<lparr>approved_by := Some 10, approved_at := Some 1000, created_at := 1001, updated_at := 1001\<rparr>]) \<and>
   createBooking (env_at 103) resident_a (slot_request 2 ''10:00'' ''12:00'') (db_with []) =
     (Inr (Some ((booking_row 103 2 10 36000 43200 Pending)\<lparr>created_at := 1001, updated_at := 1001\<rparr>)),
      db_with [(booking_row 103 2 10 36000 43200 Pending)\<lparr>created_at := 1001, updated_at := 1001\<rparr>]) \<and>
   (\<exists>b. Some ((booking_row 100 1 10 36000 43200 Approved)
           \<lparr>approved_by := Some 10, approved_at := Some 1000, created_at := 1001, updated_at := 1001\<rparr>) = Some b \<and>
        status b = Approved \<and> approved_by b = Some (u_id resident_a) \<and>
        approved_at b = Some (js_now (env_at 100))) \<and>
   (\<exists>b. Some ((booking_row 103 2 10 36000 43200 Pending)\<lparr>created_at := 1001, updated_at := 1001\<rparr>) = Some b \<and>
        status b = Pending \<and> approved_by b = None \<and> approved_at b = None)"
proof -
  let ?bx = "(booking_row 100 1 10 36000 43200 Approved)
           \<lparr>approved_by := Some 10, approved_at := Some 1000, created_at := 1001, updated_at := 1001\<rparr>"
  let ?by = "(booking_row 103 2 10 36000 43200 Pending)\<lparr>created_at := 1001, updated_at := 1001\<rparr>"
  have cx: "createBooking (env_at 100) resident_a (slot_request 1 ''10:00'' ''12:00'') (db_with []) =
     (Inr (Some ?bx), db_with [?bx])" by code_simp
  have cy: "createBooking (env_at 103) resident_a (slot_request 2 ''10:00'' ''12:00'') (db_with []) =
     (Inr (Some ?by), db_with [?by])" by code_simp
  have fx: "facility_x \<in> set (facilities (db_with []))"
    "f_id facility_x = rq_facility_id (slot_request 1 ''10:00'' ''12:00'')" "is_active facility_x"
    by code_simp+
  have fy: "facility_y \<in> set (facilities (db_with []))"
    "f_id facility_y = rq_facility_id (slot_request 2 ''10:00'' ''12:00'')" "is_active facility_y"
    by code_simp+
  have ax: "\<not> requires_approval facility_x" by code_simp
  have ay: "requires_approval facility_y" by code_simp
  from createBooking_initial_status[OF cx fx] ax
  have px: "\<exists>b. Some ?bx = Some b \<and> status b = Approved \<and> approved_by b = Some (u_id resident_a) \<and>
        approved_at b = Some (js_now (env_at 100))"
    by auto
  from createBooking_initial_status[OF cy fy] ay
  have py: "\<exists>b. Some ?by = Some b \<and> status b = Pending \<and> approved_by b = None \<and> approved_at b = None"
    by auto
  from cx cy fx fy ax ay px py show ?thesis by blast
qed

text \<open>
  C6 as stated fails: the approval timestamp of an automatically approved booking is
  read from the clock of the handler and its creation timestamp from the clock of the
  store, and the two readings differ.
\<close>

theorem approved_at_is_not_created_at_counterexample:
  "createBooking (env_at 100) resident_a (slot_request 1 ''10:00'' ''12:00'') (db_with []) =
     (Inr (Some ((booking_row 100 1 10 36000 43200 Approved)
           \<lparr>approved_by := Some 10, approved_at := Some 1000, created_at := 1001, updated_at := 1001\<rparr>)),
      db_with [(booking_row 100 1 10 36000 43200 Approved)
           \<lparr>approved_by := Some 10, approved_at := Some 1000, created_at := 1001, updated_at := 1001\<rparr>]) \<and>
   approved_at ((booking_row 100 1 10 36000 43200 Approved)
           \<lparr>approved_by := Some 10, approved_at := Some 1000, created_at := 1001, updated_at := 1001\<rparr>) =
     Some (js_now (env_at 100)) \<and>
   created_at ((booking_row 100 1 10 36000 43200 Approved)
           \<lparr>approved_by := Some 10, approved_at := Some 1000, created_at := 1001, updated_at := 1001\<rparr>) =
     db_now (env_at 100) \<and>
   approved_at ((booking_row 100 1 10 36000 43200 Approved)
           \<lparr>approved_by := Some 10, approved_at := Some 1000, created_at := 1001, updated_at := 1001\<rparr>) \<noteq>
     Some (created_at ((booking_row 100 1 10 36000 43200 Approved)
           \<lparr>approved_by := Some 10, approved_at := Some 1000, created_at := 1001, updated_at := 1001\<rparr>))"
  by code_simp

section \<open>Listing the bookings of a facility\<close>

lemma facility_bookings_query_set:
  "set (facility_bookings_query actor fid q rows) =
     {b \<in> set rows. facility_id b = fid \<and>
        (role actor = Admin \<or> status b = Approved \<or> user_id b = u_id actor) \<and>
        (q_status q = [] \<or> Some (status b) = status_in (q_status q)) \<and>
        (case q_date q of Some d \<Rightarrow> booking_date b = d | None \<Rightarrow> True)}"
  unfolding facility_bookings_query_def by auto

lemma getFacilityBookings_data:
  assumes "getFacilityBookings actor fid q db = Inr page"
  shows "pg_data page =
           take (nat (parseInt_or (q_limit q) 10))
             (drop (nat ((parseInt_or (q_page q) 1 - 1) * parseInt_or (q_limit q) 10))
               (facility_bookings_query actor fid q (facility_bookings db)))"
    and "pg_total page = length (facility_bookings_query actor fid q (facility_bookings db))"
  using assms unfolding getFacilityBookings_def Let_def by (auto split: if_splits)

lemma getFacilityBookings_rows:
  assumes "getFacilityBookings actor fid q db = Inr page" "b \<in> set (pg_data page)"
  shows "b \<in> set (facility_bookings db) \<and> facility_id b = fid \<and>
         (role actor \<noteq> Admin \<longrightarrow> status b = Approved \<or> user_id b = u_id actor)"
proof -
  from assms have "b \<in> set (facility_bookings_query actor fid q (facility_bookings db))"
    unfolding getFacilityBookings_data(1)[OF assms(1)]
    by (metis in_set_takeD in_set_dropD)
  then show ?thesis
    unfolding facility_bookings_query_set by auto
qed

lemma getFacilityBookings_admin_all:
  assumes "role actor = Admin" "q_status q = []" "q_date q = None" "q_page q = None"
    and "q_limit q = Some n" "int (length (facility_bookings db)) \<le> n" "0 < n"
  shows "\<exists>page. getFacilityBookings actor fid q db = Inr page \<and>
           set (pg_data page) = {b \<in> set (facility_bookings db). facility_id b = fid} \<and>
           pg_total page = length (filter (\<lambda>b. facility_id b = fid) (facility_bookings db))"
proof -
  let ?rows = "facility_bookings_query actor fid q (facility_bookings db)"
  have r: "?rows = sort_key (\<lambda>b. (booking_date b, start_time b))
                     (filter (\<lambda>b. facility_id b = fid) (facility_bookings db))"
    using assms(1-3) by (simp add: facility_bookings_query_def)
  have "length ?rows \<le> length (facility_bookings db)" unfolding r by simp
  with assms(6) have "length ?rows \<le> nat n" by linarith
  then have t: "take (nat n) ?rows = ?rows" by simp
  have s: "set ?rows = {b \<in> set (facility_bookings db). facility_id b = fid}"
    unfolding r by auto
  have l: "length ?rows = length (filter (\<lambda>b. facility_id b = fid) (facility_bookings db))"
    unfolding r by simp
  have "getFacilityBookings actor fid q db =
          Inr \<lparr> pg_data = ?rows, pg_page = 1, pg_limit = n, pg_total = length ?rows,
                pg_totalPages = - ((- int (length ?rows)) div n) \<rparr>"
    using assms(2,4,5,7) t by (simp add: getFacilityBookings_def Let_def parseInt_or_def)
  with s l show ?thesis by simp
qed

text \<open>
C7.  Every row in a page that \<open>getFacilityBookings\<close> returns to an actor who is not an
  administrator belongs to the facility and is approved or owned by the actor: no
  pending, rejected or cancelled row of another user is returned.  An administrator is
  not restricted: asking without filters for a first page long enough for the table,
  the administrator receives every row of the facility, whatever its status and owner.
\<close>

theorem getFacilityBookings_visibility:
  "(role actor \<noteq> Admin \<and> getFacilityBookings actor fid q db = Inr page \<and> b \<in> set (pg_data page) \<longrightarrow>
      facility_id b = fid \<and> (status b = Approved \<or> user_id b = u_id actor)) \<and>
   (role actor = Admin \<and> q_status q = [] \<and> q_date q = None \<and> q_page q = None \<and>
    q_limit q = Some n \<and> int (length (facility_bookings db)) \<le> n \<and> 0 < n \<longrightarrow>
      (\<exists>p. getFacilityBookings actor fid q db = Inr p \<and>
           set (pg_data p) = {b \<in> set (facility_bookings db). facility_id b = fid} \<and>
           pg_total p = length (filter (\<lambda>b. facility_id b = fid) (facility_bookings db))))"
  using getFacilityBookings_rows[of actor fid q db page b]
        getFacilityBookings_admin_all[of actor q n db fid]
  by blast


theorem getFacilityBookings_visibility_witness:
  "role resident_a \<noteq> Admin \<and>
   getFacilityBookings resident_a 1 (no_filters None) (db_with mixed_rows) =
     Inr \<lparr> pg_data = [booking_row 100 1 10 36000 43200 Approved, booking_row 102 1 10 46800 50400 Rejected],
           pg_page = 1, pg_limit = 10, pg_total = 2, pg_totalPages = 1 \<rparr> \<and>
   user_id (booking_row 102 1 10 46800 50400 Rejected) = u_id resident_a \<and>
   (status (booking_row 100 1 10 36000 43200 Approved) = Approved \<or>
    user_id (booking_row 100 1 10 36000 43200 Approved) = u_id resident_a) \<and>
   role admin_c = Admin \<and> int (length (facility_bookings (db_with mixed_rows))) \<le> 10 \<and>
   (\<exists>p. getFacilityBookings admin_c 1 (no_filters (Some 10)) (db_with mixed_rows) = Inr p \<and>
        set (pg_data p) = {b \<in> set (facility_bookings (db_with mixed_rows)). facility_id b = 1} \<and>
        pg_total p = length (filter (\<lambda>b. facility_id b = 1) (facility_bookings (db_with mixed_rows)))) \<and>
   length (filter (\<lambda>b. facility_id b = 1) (facility_bookings (db_with mixed_rows))) = 4"
proof -
  let ?page = "\<lparr> pg_data = [booking_row 100 1 10 36000 43200 Approved, booking_row 102 1 10 46800 50400 Rejected],
           pg_page = 1, pg_limit = 10, pg_total = 2, pg_totalPages = 1 \<rparr>"
  have ra: "role resident_a \<noteq> Admin" by code_simp
  have g: "getFacilityBookings resident_a 1 (no_filters None) (db_with mixed_rows) = Inr ?page"
    by code_simp
  have m: "booking_row 100 1 10 36000 43200 Approved \<in> set (pg_data ?page)" by simp
  have o: "user_id (booking_row 102 1 10 46800 50400 Rejected) = u_id resident_a" by code_simp
  from getFacilityBookings_visibility[of resident_a 1 "no_filters None" "db_with mixed_rows" ?page
      "booking_row 100 1 10 36000 43200 Approved"] ra g m
  have v: "status (booking_row 100 1 10 36000 43200 Approved) = Approved \<or>
    user_id (booking_row 100 1 10 36000 43200 Approved) = u_id resident_a"
    by blast
  have ad: "role admin_c = Admin" by code_simp
  have q: "q_status (no_filters (Some 10)) = []" "q_date (no_filters (Some 10)) = None"
    "q_page (no_filters (Some 10)) = None" "q_limit (no_filters (Some 10)) = Some 10"
    by code_simp+
  have n: "int (length (facility_bookings (db_with mixed_rows))) \<le> 10" by code_simp
  from getFacilityBookings_visibility[of admin_c 1 "no_filters (Some 10)" "db_with mixed_rows" _ _ 10] ad q n
  have a: "\<exists>p. getFacilityBookings admin_c 1 (no_filters (Some 10)) (db_with mixed_rows) = Inr p \<and>
        set (pg_data p) = {b \<in> set (facility_bookings (db_with mixed_rows)). facility_id b = 1} \<and>
        pg_total p = length (filter (\<lambda>b. facility_id b = 1) (facility_bookings (db_with mixed_rows)))"
    by simp
  have c: "length (filter (\<lambda>b. facility_id b = 1) (facility_bookings (db_with mixed_rows))) = 4"
    by code_simp
  from ra g o v ad n a c show ?thesis by blast
qed

section \<open>Cancellation\<close>

lemma filter_by_id:
  assumes "primary_key rows" "b \<in> set rows" "b_id b = ident"
  shows "filter (\<lambda>r. b_id r = ident) rows = [b]"
  using filter_by_key[of b_id rows b ident "\<lambda>r. True"] assms by (simp add: primary_key_def)

lemma cancelBooking_missing:
  assumes "\<forall>b \<in> set (facility_bookings db). b_id b \<noteq> ident"
  shows "cancelBooking env actor ident db = (Inl BookingNotFound, db)"
proof -
  have "filter (\<lambda>r. b_id r = ident) (facility_bookings db) = []"
    using assms by (simp add: filter_empty_conv)
  then show ?thesis by (simp add: cancelBooking_def single_def)
qed

lemma cancelBooking_found:
  assumes "filter (\<lambda>r. b_id r = ident) (facility_bookings db) = [b]"
  shows "cancelBooking env actor ident db =
     (if role actor \<noteq> Admin \<and> user_id b \<noteq> u_id actor then (Inl AccessDenied, db)
      else if status b = Cancelled then (Inl AlreadyCancelled, db)
      else if bookingDateTime (booking_date b) (start_time b) < js_now env then (Inl PastBooking, db)
      else (Inr (Some (b\<lparr>status := Cancelled, updated_at := db_now env\<rparr>)),
            db\<lparr>facility_bookings :=
                 map (\<lambda>r. if b_id r = ident then r\<lparr>status := Cancelled, updated_at := db_now env\<rparr> else r)
                   (facility_bookings db)\<rparr>))"
  using assms by (simp add: cancelBooking_def single_def update_single_def)

lemma cancelBooking_success:
  assumes "cancelBooking env actor ident db = (Inr r, db')"
  shows "\<exists>b. filter (\<lambda>r. b_id r = ident) (facility_bookings db) = [b] \<and>
           r = Some (b\<lparr>status := Cancelled, updated_at := db_now env\<rparr>) \<and>
           db' = db\<lparr>facility_bookings :=
                 map (\<lambda>r. if b_id r = ident then r\<lparr>status := Cancelled, updated_at := db_now env\<rparr> else r)
                   (facility_bookings db)\<rparr>"
proof (cases "filter (\<lambda>r. b_id r = ident) (facility_bookings db)")
  case Nil
  with assms show ?thesis by (simp add: cancelBooking_def single_def)
next
  case (Cons b bs)
  show ?thesis
  proof (cases bs)
    case Nil
    with Cons have f: "filter (\<lambda>r. b_id r = ident) (facility_bookings db) = [b]" by simp
    from assms show ?thesis
      unfolding cancelBooking_found[OF f] f by (auto split: if_splits)
  next
    case (Cons c cs)
    with \<open>filter (\<lambda>r. b_id r = ident) (facility_bookings db) = b # bs\<close> assms
    show ?thesis by (simp add: cancelBooking_def single_def)
  qed
qed

lemma perform_keeps_primary_key:
  assumes "primary_key (facility_bookings db)"
  shows "primary_key (facility_bookings (perform op db))"
proof (cases op)
  case (CreateBooking env actor body)
  obtain resp db' where r: "createBooking env actor body db = (resp, db')"
    by (cases "createBooking env actor body db")
  show ?thesis
  proof (cases resp)
    case (Inl e)
    with createBooking_rows[OF r] assms CreateBooking r show ?thesis by auto
  next
    case (Inr row)
    with createBooking_success[of env actor body db row db'] r assms CreateBooking
    show ?thesis by (auto simp: primary_key_def)
  qed
next
  case (ApproveOrReject env actor ident body)
  obtain resp db' where r: "approveBooking env actor ident body db = (resp, db')"
    by (cases "approveBooking env actor ident body db")
  have "map b_id (facility_bookings db') = map b_id (facility_bookings db)"
    using approveBooking_rows[OF r] by (auto simp: comp_def)
  with assms ApproveOrReject r show ?thesis by (simp add: primary_key_def)
next
  case (CancelBooking env actor ident)
  obtain resp db' where r: "cancelBooking env actor ident db = (resp, db')"
    by (cases "cancelBooking env actor ident db")
  have "map b_id (facility_bookings db') = map b_id (facility_bookings db)"
    using cancelBooking_rows[OF r] by (auto simp: comp_def)
  with assms CancelBooking r show ?thesis by (simp add: primary_key_def)
qed

lemma primary_key_reachable:
  "primary_key (facility_bookings db) \<Longrightarrow> primary_key (facility_bookings (perform_all ops db))"
  by (induction ops arbitrary: db) (simp_all add: perform_keeps_primary_key)

text \<open>
C8.  On a table with its primary key, \<open>cancelBooking\<close> answers \<open>Booking not found\<close> (404)
  when no row has the identifier.  For the row \<open>b\<close> that has it, the checks run in this
  order: \<open>Access denied\<close> (403) unless the actor is an administrator or the owner of \<open>b\<close>;
  then \<open>Booking is already cancelled\<close> (400) when \<open>b\<close> is cancelled; then
  \<open>Cannot cancel past bookings\<close> (400) when the date and start time of \<open>b\<close> are strictly
  before the handler's clock; otherwise the call succeeds and returns the row as
  cancelled, so a pending or approved booking that has not started is cancelled by its
  owner.  The failures leave the database as it was.
\<close>

theorem cancelBooking_checks_in_order:
  assumes "primary_key (facility_bookings db)"
  shows "((\<forall>b \<in> set (facility_bookings db). b_id b \<noteq> ident) \<longrightarrow>
            cancelBooking env actor ident db = (Inl BookingNotFound, db)) \<and>
         (\<forall>b \<in> set (facility_bookings db). b_id b = ident \<longrightarrow>
            (role actor \<noteq> Admin \<and> user_id b \<noteq> u_id actor \<longrightarrow>
               cancelBooking env actor ident db = (Inl AccessDenied, db)) \<and>
            ((role actor = Admin \<or> user_id b = u_id actor) \<and> status b = Cancelled \<longrightarrow>
               cancelBooking env actor ident db = (Inl AlreadyCancelled, db)) \<and>
            ((role actor = Admin \<or> user_id b = u_id actor) \<and> status b \<noteq> Cancelled \<and>
             bookingDateTime (booking_date b) (start_time b) < js_now env \<longrightarrow>
               cancelBooking env actor ident db = (Inl PastBooking, db)) \<and>
            ((role actor = Admin \<or> user_id b = u_id actor) \<and> status b \<noteq> Cancelled \<and>
             js_now env \<le> bookingDateTime (booking_date b) (start_time b) \<longrightarrow>
               fst (cancelBooking env actor ident db) =
                 Inr (Some (b\<lparr>status := Cancelled, updated_at := db_now env\<rparr>)))) \<and>
         http_status BookingNotFound = 404 \<and> http_status AccessDenied = 403 \<and>
         http_status AlreadyCancelled = 400 \<and> http_status PastBooking = 400"
proof (intro conjI impI ballI)
  assume "\<forall>b \<in> set (facility_bookings db). b_id b \<noteq> ident"
  then show "cancelBooking env actor ident db = (Inl BookingNotFound, db)"
    by (rule cancelBooking_missing)
next
  fix b assume b: "b \<in> set (facility_bookings db)" "b_id b = ident"
  note f = filter_by_id[OF assms b]
  { assume "role actor \<noteq> Admin \<and> user_id b \<noteq> u_id actor"
    then show "cancelBooking env actor ident db = (Inl AccessDenied, db)"
      by (simp add: cancelBooking_found[OF f]) }
  { assume "(role actor = Admin \<or> user_id b = u_id actor) \<and> status b = Cancelled"
    then show "cancelBooking env actor ident db = (Inl AlreadyCancelled, db)"
      by (auto simp: cancelBooking_found[OF f]) }
  { assume "(role actor = Admin \<or> user_id b = u_id actor) \<and> status b \<noteq> Cancelled \<and>
             bookingDateTime (booking_date b) (start_time b) < js_now env"
    then show "cancelBooking env actor ident db = (Inl PastBooking, db)"
      by (auto simp: cancelBooking_found[OF f]) }
  { assume "(role actor = Admin \<or> user_id b = u_id actor) \<and> status b \<noteq> Cancelled \<and>
             js_now env \<le> bookingDateTime (booking_date b) (start_time b)"
    then show "fst (cancelBooking env actor ident db) =
                 Inr (Some (b\<lparr>status := Cancelled, updated_at := db_now env\<rparr>))"
      by (auto simp: cancelBooking_found[OF f]) }
qed simp_all

theorem cancelBooking_checks_in_order_witness:
  "primary_key (facility_bookings (db_with mixed_rows)) \<and>
   cancelBooking (env_at 0) resident_a 999 (db_with mixed_rows) = (Inl BookingNotFound, db_with mixed_rows) \<and>
   booking_row 103 1 11 50400 54000 Cancelled \<in> set (facility_bookings (db_with mixed_rows)) \<and>
   cancelBooking (env_at 0) resident_a 103 (db_with mixed_rows) = (Inl AccessDenied, db_with mixed_rows) \<and>
   bookingDateTime 20000 50400 < js_now ((env_at 0)\<lparr>js_now := 1728050400001\<rparr>) \<and>
   cancelBooking ((env_at 0)\<lparr>js_now := 1728050400001\<rparr>) resident_b 103 (db_with mixed_rows) =
     (Inl AlreadyCancelled, db_with mixed_rows) \<and>
   booking_row 101 1 11 43200 46800 Pending \<in> set (facility_bookings (db_with mixed_rows)) \<and>
   bookingDateTime 20000 43200 < js_now ((env_at 0)\<lparr>js_now := 1728043200001\<rparr>) \<and>
   cancelBooking ((env_at 0)\<lparr>js_now := 1728043200001\<rparr>) resident_b 101 (db_with mixed_rows) =
     (Inl PastBooking, db_with mixed_rows) \<and>
   js_now ((env_at 0)\<lparr>js_now := 1728043200000\<rparr>) \<le> bookingDateTime 20000 43200 \<and>
   fst (cancelBooking ((env_at 0)\<lparr>js_now := 1728043200000\<rparr>) resident_b 101 (db_with mixed_rows)) =
     Inr (Some ((booking_row 101 1 11 43200 46800 Pending)
            \<lparr>status := Cancelled, updated_at := db_now ((env_at 0)\<lparr>js_now := 1728043200000\<rparr>)\<rparr>)) \<and>
   booking_row 100 1 10 36000 43200 Approved \<in> set (facility_bookings (db_with mixed_rows)) \<and>
   fst (cancelBooking (env_at 0) resident_a 100 (db_with mixed_rows)) =
     Inr (Some ((booking_row 100 1 10 36000 43200 Approved)
            \<lparr>status := Cancelled, updated_at := db_now (env_at 0)\<rparr>))"
proof -
  let ?db = "db_with mixed_rows"
  let ?r100 = "booking_row 100 1 10 36000 43200 Approved"
  let ?r101 = "booking_row 101 1 11 43200 46800 Pending"
  let ?r103 = "booking_row 103 1 11 50400 54000 Cancelled"
  let ?late3 = "(env_at 0)\<lparr>js_now := 1728050400001\<rparr>"
  let ?late1 = "(env_at 0)\<lparr>js_now := 1728043200001\<rparr>"
  let ?edge1 = "(env_at 0)\<lparr>js_now := 1728043200000\<rparr>"
  have pk: "primary_key (facility_bookings ?db)" by code_simp
  have none: "\<forall>b \<in> set (facility_bookings ?db). b_id b \<noteq> 999" by code_simp
  from cancelBooking_checks_in_order[OF pk, of 999 "env_at 0" resident_a] none
  have c1: "cancelBooking (env_at 0) resident_a 999 ?db = (Inl BookingNotFound, ?db)"
    by blast
  have m3: "?r103 \<in> set (facility_bookings ?db)" "b_id ?r103 = 103" by code_simp+
  have a3: "role resident_a \<noteq> Admin \<and> user_id ?r103 \<noteq> u_id resident_a" by code_simp
  from cancelBooking_checks_in_order[OF pk, of 103 "env_at 0" resident_a] m3 a3
  have c2: "cancelBooking (env_at 0) resident_a 103 ?db = (Inl AccessDenied, ?db)"
    by blast
  have p3: "bookingDateTime 20000 50400 < js_now ?late3" by code_simp
  have b3: "(role resident_b = Admin \<or> user_id ?r103 = u_id resident_b) \<and> status ?r103 = Cancelled"
    by code_simp
  from cancelBooking_checks_in_order[OF pk, of 103 ?late3 resident_b] m3 b3
  have c3: "cancelBooking ?late3 resident_b 103 ?db = (Inl AlreadyCancelled, ?db)"
    by blast
  have m1: "?r101 \<in> set (facility_bookings ?db)" "b_id ?r101 = 101" by code_simp+
  have p1: "bookingDateTime 20000 43200 < js_now ?late1" by code_simp
  have b1: "(role resident_b = Admin \<or> user_id ?r101 = u_id resident_b) \<and> status ?r101 \<noteq> Cancelled \<and>
            bookingDateTime (booking_date ?r101) (start_time ?r101) < js_now ?late1"
    by code_simp
  from cancelBooking_checks_in_order[OF pk, of 101 ?late1 resident_b] m1 b1
  have c4: "cancelBooking ?late1 resident_b 101 ?db = (Inl PastBooking, ?db)"
    by blast
  have e1: "js_now ?edge1 \<le> bookingDateTime 20000 43200" by code_simp
  have d1: "(role resident_b = Admin \<or> user_id ?r101 = u_id resident_b) \<and> status ?r101 \<noteq> Cancelled \<and>
            js_now ?edge1 \<le> bookingDateTime (booking_date ?r101) (start_time ?r101)"
    by code_simp
  from cancelBooking_checks_in_order[OF pk, of 101 ?edge1 resident_b] m1 d1
  have c5: "fst (cancelBooking ?edge1 resident_b 101 ?db) =
     Inr (Some (?r101\<lparr>status := Cancelled, updated_at := db_now ?edge1\<rparr>))"
    by blast
  have m0: "?r100 \<in> set (facility_bookings ?db)" "b_id ?r100 = 100" by code_simp+
  have d0: "(role resident_a = Admin \<or> user_id ?r100 = u_id resident_a) \<and> status ?r100 \<noteq> Cancelled \<and>
            js_now (env_at 0) \<le> bookingDateTime (booking_date ?r100) (start_time ?r100)"
    by code_simp
  from cancelBooking_checks_in_order[OF pk, of 100 "env_at 0" resident_a] m0 d0
  have c6: "fst (cancelBooking (env_at 0) resident_a 100 ?db) =
     Inr (Some (?r100\<lparr>status := Cancelled, updated_at := db_now (env_at 0)\<rparr>))"
    by blast
  from pk c1 m3(1) c2 p3 c3 m1(1) p1 c4 e1 c5 m0(1) c6 show ?thesis by blast
qed

text \<open>
  C9.  A successful \<open>cancelBooking\<close> leaves the facilities and every row with another
  identifier as they were; the row with the given identifier is the one returned, its
  status is cancelled, and its identifier, facility, owner, date, times, purpose,
  notes, admin notes, approver, approval timestamp and creation timestamp are
  unchanged.  (The update trigger of the table refreshes \<open>updated_at\<close> of that row.)
\<close>

theorem cancelBooking_frame:
  assumes "cancelBooking env actor ident db = (Inr r, db')"
  shows "facilities db' = facilities db \<and>
         length (facility_bookings db') = length (facility_bookings db) \<and>
         (\<forall>i < length (facility_bookings db).
            (b_id (facility_bookings db ! i) \<noteq> ident \<longrightarrow>
               facility_bookings db' ! i = facility_bookings db ! i) \<and>
            (b_id (facility_bookings db ! i) = ident \<longrightarrow>
               r = Some (facility_bookings db' ! i) \<and>
               status (facility_bookings db' ! i) = Cancelled \<and>
               b_id (facility_bookings db' ! i) = b_id (facility_bookings db ! i) \<and>
               facility_id (facility_bookings db' ! i) = facility_id (facility_bookings db ! i) \<and>
               user_id (facility_bookings db' ! i) = user_id (facility_bookings db ! i) \<and>
               booking_date (facility_bookings db' ! i) = booking_date (facility_bookings db ! i) \<and>
               start_time (facility_bookings db' ! i) = start_time (facility_bookings db ! i) \<and>
               end_time (facility_bookings db' ! i) = end_time (facility_bookings db ! i) \<and>
               purpose (facility_bookings db' ! i) = purpose (facility_bookings db ! i) \<and>
               notes (facility_bookings db' ! i) = notes (facility_bookings db ! i) \<and>
               admin_notes (facility_bookings db' ! i) = admin_notes (facility_bookings db ! i) \<and>
               approved_by (facility_bookings db' ! i) = approved_by (facility_bookings db ! i) \<and>
               approved_at (facility_bookings db' ! i) = approved_at (facility_bookings db ! i) \<and>
               created_at (facility_bookings db' ! i) = created_at (facility_bookings db ! i)))"
proof -
  from cancelBooking_success[OF assms] obtain b where
    f: "filter (\<lambda>r. b_id r = ident) (facility_bookings db) = [b]"
    and r: "r = Some (b\<lparr>status := Cancelled, updated_at := db_now env\<rparr>)"
    and d: "db' = db\<lparr>facility_bookings :=
                 map (\<lambda>r. if b_id r = ident then r\<lparr>status := Cancelled, updated_at := db_now env\<rparr> else r)
                   (facility_bookings db)\<rparr>"
    by blast
  have only: "facility_bookings db ! i = b"
    if "i < length (facility_bookings db)" "b_id (facility_bookings db ! i) = ident" for i
  proof -
    from that have "facility_bookings db ! i \<in> set (filter (\<lambda>r. b_id r = ident) (facility_bookings db))"
      by simp
    then show ?thesis unfolding f by simp
  qed
  show ?thesis
    unfolding d using r only by auto
qed


theorem cancelBooking_frame_witness:
  "cancelBooking (env_at 0) resident_b 101 (db_with mixed_rows) =
     (Inr (Some ((booking_row 101 1 11 43200 46800 Cancelled)\<lparr>updated_at := 1001\<rparr>)),
      db_with [booking_row 100 1 10 36000 43200 Approved,
               (booking_row 101 1 11 43200 46800 Cancelled)\<lparr>updated_at := 1001\<rparr>,
               booking_row 102 1 10 46800 50400 Rejected,
               booking_row 103 1 11 50400 54000 Cancelled,
               booking_row 104 2 11 36000 43200 Approved]) \<and>
   1 < length (facility_bookings (db_with mixed_rows)) \<and>
   b_id (facility_bookings (db_with mixed_rows) ! 1) = 101 \<and>
   status (facility_bookings (db_with mixed_rows) ! 1) = Pending \<and>
   status (facility_bookings (snd (cancelBooking (env_at 0) resident_b 101 (db_with mixed_rows))) ! 1) = Cancelled \<and>
   user_id (facility_bookings (snd (cancelBooking (env_at 0) resident_b 101 (db_with mixed_rows))) ! 1) =
     user_id (facility_bookings (db_with mixed_rows) ! 1) \<and>
   start_time (facility_bookings (snd (cancelBooking (env_at 0) resident_b 101 (db_with mixed_rows))) ! 1) =
     start_time (facility_bookings (db_with mixed_rows) ! 1) \<and>
   0 < length (facility_bookings (db_with mixed_rows)) \<and>
   b_id (facility_bookings (db_with mixed_rows) ! 0) \<noteq> 101 \<and>
   facility_bookings (snd (cancelBooking (env_at 0) resident_b 101 (db_with mixed_rows))) ! 0 =
     facility_bookings (db_with mixed_rows) ! 0"
proof -
  let ?db = "db_with mixed_rows"
  let ?r = "(booking_row 101 1 11 43200 46800 Cancelled)\<lparr>updated_at := 1001\<rparr>"
  let ?db' = "db_with [booking_row 100 1 10 36000 43200 Approved, ?r,
               booking_row 102 1 10 46800 50400 Rejected,
               booking_row 103 1 11 50400 54000 Cancelled,
               booking_row 104 2 11 36000 43200 Approved]"
  have c: "cancelBooking (env_at 0) resident_b 101 ?db = (Inr (Some ?r), ?db')"
    by code_simp
  have s: "snd (cancelBooking (env_at 0) resident_b 101 ?db) = ?db'"
    by (simp only: c snd_conv)
  have l1: "1 < length (facility_bookings ?db)" by code_simp
  have k1: "b_id (facility_bookings ?db ! 1) = 101" by code_simp
  have p1: "status (facility_bookings ?db ! 1) = Pending" by code_simp
  have l0: "0 < length (facility_bookings ?db)" by code_simp
  have k0: "b_id (facility_bookings ?db ! 0) \<noteq> 101" by code_simp
  note fr = cancelBooking_frame[OF c, THEN conjunct2, THEN conjunct2]
  from fr[THEN spec, of 1] l1 k1 have
    f1: "status (facility_bookings ?db' ! 1) = Cancelled"
        "user_id (facility_bookings ?db' ! 1) = user_id (facility_bookings ?db ! 1)"
        "start_time (facility_bookings ?db' ! 1) = start_time (facility_bookings ?db ! 1)"
    by blast+
  from fr[THEN spec, of 0] l0 k0 have
    f0: "facility_bookings ?db' ! 0 = facility_bookings ?db ! 0"
    by blast
  from c l1 k1 p1 f1 l0 k0 f0 show ?thesis
    unfolding s by blast
qed

section \<open>The path parameter of the booking route\<close>

lemma post_facility_bookings_success:
  assumes "post_facility_bookings env req db = (Inr r, db')"
  shows "\<exists>u. req_user req = Some u \<and> createBookingSchema env (req_body req) \<and>
             createBooking env u (req_body req) db = (Inr r, db')"
  using assms unfolding post_facility_bookings_def validateRequest_def
  by (auto split: option.splits if_splits)

text \<open>
C10.  The route \<open>POST /:id/bookings\<close> never reads the \<open>:id\<close> parameter of the path: two
  requests by the same user with the same body get the same answer and leave the same
  database, whatever their path parameters; and the booking that a successful request
  creates is for the facility named by \<open>facility_id\<close> of the body, which is an active
  facility of the database.
\<close>

theorem post_facility_bookings_ignores_path_id:
  "(req_user r1 = req_user r2 \<and> req_body r1 = req_body r2 \<longrightarrow>
      post_facility_bookings env r1 db = post_facility_bookings env r2 db) \<and>
   (post_facility_bookings env r1 db = (Inr (Some b), db') \<longrightarrow>
      facility_id b = rq_facility_id (req_body r1) \<and>
      (\<exists>fac \<in> set (facilities db). f_id fac = rq_facility_id (req_body r1) \<and> is_active fac))"
proof (intro conjI impI)
  assume "req_user r1 = req_user r2 \<and> req_body r1 = req_body r2"
  then show "post_facility_bookings env r1 db = post_facility_bookings env r2 db"
    by (simp add: post_facility_bookings_def validateRequest_def split: option.splits)
next
  assume a: "post_facility_bookings env r1 db = (Inr (Some b), db')"
  from post_facility_bookings_success[OF a] obtain u where
    c: "createBooking env u (req_body r1) db = (Inr (Some b), db')" by blast
  from createBooking_success[OF c] obtain fac where
    f: "single (filter (\<lambda>f. f_id f = rq_facility_id (req_body r1) \<and> is_active f) (facilities db)) = (Some fac, None)"
    and i: "facility_id b = rq_facility_id (req_body r1)"
    by auto
  from single_one[OF f] have "fac \<in> set (filter (\<lambda>f. f_id f = rq_facility_id (req_body r1) \<and> is_active f) (facilities db))"
    by simp
  then have "fac \<in> set (facilities db) \<and> f_id fac = rq_facility_id (req_body r1) \<and> is_active fac"
    by simp
  with i show "facility_id b = rq_facility_id (req_body r1)"
    "\<exists>fac \<in> set (facilities db). f_id fac = rq_facility_id (req_body r1) \<and> is_active fac"
    by auto
qed

theorem post_facility_bookings_ignores_path_id_witness:
  "req_user \<lparr>req_user = Some resident_a, params_id = 2, req_body = slot_request 1 ''10:00'' ''12:00''\<rparr> =
     req_user \<lparr>req_user = Some resident_a, params_id = 1, req_body = slot_request 1 ''10:00'' ''12:00''\<rparr> \<and>
   req_body \<lparr>req_user = Some resident_a, params_id = 2, req_body = slot_request 1 ''10:00'' ''12:00''\<rparr> =
     req_body \<lparr>req_user = Some resident_a, params_id = 1, req_body = slot_request 1 ''10:00'' ''12:00''\<rparr> \<and>
   post_facility_bookings (env_at 100)
       \<lparr>req_user = Some resident_a, params_id = 2, req_body = slot_request 1 ''10:00'' ''12:00''\<rparr> (db_with []) =
     post_facility_bookings (env_at 100)
       \<lparr>req_user = Some resident_a, params_id = 1, req_body = slot_request 1 ''10:00'' ''12:00''\<rparr> (db_with []) \<and>
   post_facility_bookings (env_at 100)
       \<lparr>req_user = Some resident_a, params_id = 2, req_body = slot_request 1 ''10:00'' ''12:00''\<rparr> (db_with []) =
     (Inr (Some ((booking_row 100 1 10 36000 43200 Approved)
           \<lparr>approved_by := Some 10, approved_at := Some 1000, created_at := 1001, updated_at := 1001\<rparr>)),
      db_with [(booking_row 100 1 10 36000 43200 Approved)
           \<lparr>approved_by := Some 10, approved_at := Some 1000, created_at := 1001, updated_at := 1001\<rparr>]) \<and>
   facility_id ((booking_row 100 1 10 36000 43200 Approved)
           \<lparr>approved_by := Some 10, approved_at := Some 1000, created_at := 1001, updated_at := 1001\<rparr>) =
     rq_facility_id (slot_request 1 ''10:00'' ''12:00'') \<and>
   rq_facility_id (slot_request 1 ''10:00'' ''12:00'') = 1"
proof -
  let ?r2 = "\<lparr>req_user = Some resident_a, params_id = 2, req_body = slot_request 1 ''10:00'' ''12:00''\<rparr>"
  let ?r1 = "\<lparr>req_user = Some resident_a, params_id = 1, req_body = slot_request 1 ''10:00'' ''12:00''\<rparr>"
  let ?b = "(booking_row 100 1 10 36000 43200 Approved)
           \<lparr>approved_by := Some 10, approved_at := Some 1000, created_at := 1001, updated_at := 1001\<rparr>"
  have u: "req_user ?r2 = req_user ?r1" by simp
  have bq: "req_body ?r2 = req_body ?r1" by simp
  have bd: "req_body ?r2 = slot_request 1 ''10:00'' ''12:00''" by simp
  have p: "post_facility_bookings (env_at 100) ?r2 (db_with []) = (Inr (Some ?b), db_with [?b])"
    by code_simp
  have one: "rq_facility_id (slot_request 1 ''10:00'' ''12:00'') = 1" by code_simp
  note inst = post_facility_bookings_ignores_path_id[of ?r2 ?r1 "env_at 100" "db_with []" ?b "db_with [?b]"]
  from inst u bq have e: "post_facility_bookings (env_at 100) ?r2 (db_with []) =
     post_facility_bookings (env_at 100) ?r1 (db_with [])"
    by blast
  from inst p have f: "facility_id ?b = rq_facility_id (req_body ?r2)"
    by blast
  from u bq e p f one show ?thesis
    unfolding bd by blast
qed

end
